theory Spec2Isabelle
  imports Complex_Main "HOL-Library.Log_Nat"
begin

section \<open>JavaScript values used by the services\<close>

text \<open>
  Strings are lists of characters, a character being a code unit below 256 (Latin-1
  text). \<open>toLowerCase\<close> maps the capital letters of that range, A to Z and the accented
  capitals U+00C0 to U+00DE without the multiplication sign U+00D7, to the letter 32
  places on, and leaves every other character alone, as JavaScript does on such text.
\<close>

definition lowerChar :: "char \<Rightarrow> char" where
  "lowerChar c =
     (let n = (of_char c :: nat)
      in if (65 \<le> n \<and> n \<le> 90) \<or> (192 \<le> n \<and> n \<le> 222 \<and> n \<noteq> 215)
         then char_of (n + 32) else c)"

definition toLowerCase :: "string \<Rightarrow> string" where
  "toLowerCase s = map lowerChar s"

fun startsWith :: "string \<Rightarrow> string \<Rightarrow> bool" where
  "startsWith s [] = True"
| "startsWith [] (p # ps) = False"
| "startsWith (c # cs) (p # ps) = (c = p \<and> startsWith cs ps)"

text \<open>\<open>s.indexOf(sub)\<close>: the first position where \<open>sub\<close> starts, \<open>None\<close> for -1.\<close>

fun indexOf :: "string \<Rightarrow> string \<Rightarrow> nat option" where
  "indexOf [] sub = (if sub = [] then Some 0 else None)"
| "indexOf (c # cs) sub =
     (if startsWith (c # cs) sub then Some 0 else map_option Suc (indexOf cs sub))"

definition str_includes :: "string \<Rightarrow> string \<Rightarrow> bool" where
  "str_includes s sub = (indexOf s sub \<noteq> None)"

text \<open>\<open>s.substring(a, b)\<close>: the two indices are swapped when \<open>a > b\<close>.\<close>

definition substring :: "string \<Rightarrow> nat \<Rightarrow> nat \<Rightarrow> string" where
  "substring s a b = (let lo = min a b; hi = max a b in take (hi - lo) (drop lo s))"

text \<open>
  Numbers are IEEE doubles. A finite double is the real number it denotes, and an
  operation on doubles returns the exact result rounded to the nearest double, a tie
  going to the double with the even significand. \<open>roundDouble\<close> is that rounding: the
  doubles around a number \<open>a > 0\<close> in the binade \<open>2^e \<le> a < 2^(e+1)\<close> are the
  multiples of \<open>2^(e - 52)\<close>, and below \<open>2^(-1022)\<close> the multiples of \<open>2^(-1074)\<close>.
  The services' numbers stay far below the largest double, so no operation overflows.
\<close>

definition roundHalfEven :: "real \<Rightarrow> int" where
  "roundHalfEven a =
     (let f = \<lfloor>a\<rfloor>; r = a - of_int f
      in if r < 1 / 2 then f
         else if 1 / 2 < r then f + 1
         else if even f then f else f + 1)"

definition binade :: "real \<Rightarrow> int" where
  "binade x = (if 1 \<le> x then bitlen \<lfloor>x\<rfloor> - 1 else - bitlen (\<lceil>1 / x\<rceil> - 1))"

definition ulp :: "real \<Rightarrow> real" where
  "ulp a = 2 powi (max (binade a) (- 1022) - 52)"

definition roundDouble :: "real \<Rightarrow> real" where
  "roundDouble x =
     (if x = 0 then 0
      else sgn x * (of_int (roundHalfEven (\<bar>x\<bar> / ulp \<bar>x\<bar>)) * ulp \<bar>x\<bar>))"

text \<open>The operations \<open>/\<close>, \<open>*\<close> and \<open>+\<close> on doubles.\<close>

definition fdiv :: "real \<Rightarrow> real \<Rightarrow> real" where
  "fdiv x y = roundDouble (x / y)"

definition fmul :: "real \<Rightarrow> real \<Rightarrow> real" where
  "fmul x y = roundDouble (x * y)"

definition fadd :: "real \<Rightarrow> real \<Rightarrow> real" where
  "fadd x y = roundDouble (x + y)"

text \<open>\<open>Math.round\<close>: the nearest integer, a half rounded up.\<close>

definition Math_round :: "real \<Rightarrow> int" where
  "Math_round x = \<lfloor>x + 1 / 2\<rfloor>"

text \<open>
  \<open>parseInt\<close> of a string that starts with decimal digits; NaN (\<open>None\<close>) when it starts
  with none. \<open>undefined\<close> is passed as \<open>None\<close> and gives NaN as well. The result is the
  number the digits denote; it is the source's double for every number below 2^53 (up
  to 15 digits), and the services only compare it with the constants 0 to 10.
\<close>

definition isDigit :: "char \<Rightarrow> bool" where
  "isDigit c = (c \<in> set ''0123456789'')"

definition digitValue :: "char \<Rightarrow> nat" where
  "digitValue c = of_char c - 48"

definition parseInt :: "string option \<Rightarrow> nat option" where
  "parseInt v =
     (case v of
        None \<Rightarrow> None
      | Some s \<Rightarrow>
          (let ds = takeWhile isDigit s
           in if ds = [] then None else Some (foldl (\<lambda>n c. 10 * n + digitValue c) 0 ds)))"

text \<open>Comparisons of a number that may be NaN with a constant: false on NaN.\<close>

definition js_ge :: "'a::ord option \<Rightarrow> 'a \<Rightarrow> bool" where
  "js_ge v k = (case v of None \<Rightarrow> False | Some n \<Rightarrow> n \<ge> k)"

definition js_gt :: "'a::ord option \<Rightarrow> 'a \<Rightarrow> bool" where
  "js_gt v k = (case v of None \<Rightarrow> False | Some n \<Rightarrow> n > k)"

definition js_lt :: "'a::ord option \<Rightarrow> 'a \<Rightarrow> bool" where
  "js_lt v k = (case v of None \<Rightarrow> False | Some n \<Rightarrow> n < k)"

text \<open>
  A \<open>Set\<close> of strings keeps its elements in the order they were first added;
  \<open>Array.from(set)\<close> and \<open>[...new Set(xs)]\<close> list them in that order.
\<close>

definition Set_add :: "string list \<Rightarrow> string \<Rightarrow> string list" where
  "Set_add s x = (if x \<in> set s then s else s @ [x])"

definition new_Set :: "string list \<Rightarrow> string list" where
  "new_Set xs = foldl Set_add [] xs"

text \<open>\<open>xs.join(sep)\<close>.\<close>

fun join :: "string \<Rightarrow> string list \<Rightarrow> string" where
  "join sep [] = []"
| "join sep [x] = x"
| "join sep (x # y # ys) = x @ sep @ join sep (y # ys)"

text \<open>\<open>s.split('\n')\<close>: the pieces between the separators, at least one piece.\<close>

fun split :: "char \<Rightarrow> string \<Rightarrow> string list" where
  "split d [] = [[]]"
| "split d (c # cs) =
     (if c = d then [] # split d cs
      else (case split d cs of
              x # xs \<Rightarrow> (c # x) # xs
            | [] \<Rightarrow> [[c]]))"

text \<open>An exception thrown by the runtime: a method called on \<open>undefined\<close>.\<close>

datatype error = TypeError

text \<open>White space (\<open>\s\<close>, \<open>trim\<close>) and line terminators among 8-bit characters.\<close>

definition isSpace :: "char \<Rightarrow> bool" where
  "isSpace c = ((of_char c :: nat) \<in> {9, 10, 11, 12, 13, 32, 160})"

definition isLineTerminator :: "char \<Rightarrow> bool" where
  "isLineTerminator c = ((of_char c :: nat) \<in> {10, 13})"

definition trim :: "string \<Rightarrow> string" where
  "trim s = rev (dropWhile isSpace (rev (dropWhile isSpace s)))"

section \<open>Regular expressions\<close>

text \<open>
  The patterns of the services are built from literals, character classes, sequence,
  alternation, optional parts, quantified character classes (greedy or lazy), capture
  groups and the anchors. \<open>Rep P m greedy\<close> is a class \<open>P\<close> repeated at least \<open>m\<close>
  times. Literals are compared without case when the pattern has the \<open>i\<close> flag; the
  classes the services use under that flag contain no letter.
\<close>

datatype rx =
    Lit string
  | Cls "char \<Rightarrow> bool"
  | Seq rx rx
  | Alt rx rx
  | Opt rx
  | Rep "char \<Rightarrow> bool" nat bool
  | Grp nat rx
  | Bol
  | Eol

type_synonym groups = "nat \<Rightarrow> string option"

definition litAt :: "bool \<Rightarrow> string \<Rightarrow> string \<Rightarrow> bool" where
  "litAt i l s = (if i then startsWith (toLowerCase s) (toLowerCase l) else startsWith s l)"

text \<open>
  The backtracking matcher: all the ways \<open>r\<close> matches the text \<open>t\<close> from position \<open>p\<close>,
  as end positions with the groups captured, in the order a backtracking engine tries
  them (the first is the match it reports).
\<close>

fun rx_run :: "bool \<Rightarrow> string \<Rightarrow> rx \<Rightarrow> nat \<times> groups \<Rightarrow> (nat \<times> groups) list" where
  "rx_run i t (Lit l) (p, g) = (if litAt i l (drop p t) then [(p + length l, g)] else [])"
| "rx_run i t (Cls P) (p, g) = (if p < length t \<and> P (t ! p) then [(Suc p, g)] else [])"
| "rx_run i t (Seq a b) s = concat (map (rx_run i t b) (rx_run i t a s))"
| "rx_run i t (Alt a b) s = rx_run i t a s @ rx_run i t b s"
| "rx_run i t (Opt a) s = rx_run i t a s @ [s]"
| "rx_run i t (Rep P m greedy) (p, g) =
     (let n = length (takeWhile P (drop p t));
          ks = filter (\<lambda>k. m \<le> k) [0..<Suc n]
      in map (\<lambda>k. (p + k, g)) (if greedy then rev ks else ks))"
| "rx_run i t (Grp k a) (p, g) =
     map (\<lambda>(q, g'). (q, g'(k \<mapsto> take (q - p) (drop p t)))) (rx_run i t a (p, g))"
| "rx_run i t Bol (p, g) = (if p = 0 then [(p, g)] else [])"
| "rx_run i t Eol (p, g) = (if p = length t then [(p, g)] else [])"

text \<open>
  A match object: where the match starts and ends, and its groups (\<open>match[k]\<close> is
  \<open>m_groups m k\<close>, \<open>None\<close> for \<open>undefined\<close>).
\<close>

record rmatch =
  m_index :: nat
  m_end :: nat
  m_groups :: groups

definition rx_match_at :: "bool \<Rightarrow> string \<Rightarrow> rx \<Rightarrow> nat \<Rightarrow> rmatch option" where
  "rx_match_at i t r p =
     (case rx_run i t r (p, \<lambda>k. None) of
        [] \<Rightarrow> None
      | (q, g) # rest \<Rightarrow> Some \<lparr>m_index = p, m_end = q, m_groups = g\<rparr>)"

text \<open>The search tries the start positions from \<open>p\<close> on, \<open>n\<close> more after \<open>p\<close>.\<close>

fun rx_scan :: "bool \<Rightarrow> string \<Rightarrow> rx \<Rightarrow> nat \<Rightarrow> nat \<Rightarrow> rmatch option" where
  "rx_scan i t r p 0 = rx_match_at i t r p"
| "rx_scan i t r p (Suc n) =
     (case rx_match_at i t r p of
        Some m \<Rightarrow> Some m
      | None \<Rightarrow> rx_scan i t r (Suc p) n)"

text \<open>\<open>text.match(pattern)\<close> for a pattern without the \<open>g\<close> flag; \<open>None\<close> is \<open>null\<close>.\<close>

definition str_match :: "bool \<Rightarrow> rx \<Rightarrow> string \<Rightarrow> rmatch option" where
  "str_match i r t = rx_scan i t r 0 (length t)"

definition rx_test :: "bool \<Rightarrow> rx \<Rightarrow> string \<Rightarrow> bool" where
  "rx_test i r t = (str_match i r t \<noteq> None)"

text \<open>\<open>text.replace(pattern, '')\<close>: the first match is removed.\<close>

definition str_replace_empty :: "bool \<Rightarrow> rx \<Rightarrow> string \<Rightarrow> string" where
  "str_replace_empty i r t =
     (case str_match i r t of
        None \<Rightarrow> t
      | Some m \<Rightarrow> take (m_index m) t @ drop (m_end m) t)"

definition anyChar :: "char \<Rightarrow> bool" where
  "anyChar c = (\<not> isLineTerminator c)"

fun seqs :: "rx list \<Rightarrow> rx" where
  "seqs [] = Lit []"
| "seqs [r] = r"
| "seqs (r # rs) = Seq r (seqs rs)"

fun alts :: "rx list \<Rightarrow> rx" where
  "alts [] = Lit []"
| "alts [r] = r"
| "alts (r # rs) = Alt r (alts rs)"

section \<open>The libraries behind NlpService\<close>

text \<open>
  NlpService calls two libraries that are not part of the repository: \<open>natural\<close> (TfIdf,
  WordTokenizer, SentimentAnalyzer) and \<open>compromise\<close>. What they compute from a text is a
  parameter of the model:
  \<^item> \<open>buildDocument\<close>: the terms TfIdf keeps of a text with their counts (after its
    tokenizer and stop-word list), in the order \<open>listTerms\<close> enumerates them;
  \<^item> \<open>tfidfMeasure docs d term\<close>: the tf-idf weight TfIdf gives a term of the stored
    document number \<open>d\<close>, among the stored documents \<open>docs\<close>;
  \<^item> \<open>tokenize\<close>: the WordTokenizer;
  \<^item> \<open>getSentiment\<close>: the SentimentAnalyzer's score of a token list (NaN is \<open>None\<close>);
  \<^item> \<open>acronyms\<close>: \<open>nlp(text).match('#Acronym').out('array')\<close>.

  What NlpService relies on of TfIdf's bookkeeping is written out: \<open>addDocument\<close> appends a
  document to the stored ones, and \<open>listTerms(d)\<close> lists the terms of the stored
  document number \<open>d\<close> with their weights, heaviest first (a stable sort), and nothing
  when there is no such document.
\<close>

type_synonym document = "(string \<times> nat) list"

record libs =
  buildDocument :: "string \<Rightarrow> document"
  tfidfMeasure :: "document list \<Rightarrow> nat \<Rightarrow> string \<Rightarrow> real"
  tokenize :: "string \<Rightarrow> string list"
  getSentiment :: "string list \<Rightarrow> real option"
  acronyms :: "string \<Rightarrow> string list"

definition sortByScore :: "(string \<times> real) list \<Rightarrow> (string \<times> real) list" where
  "sortByScore ks = sort_key (\<lambda>k. - snd k) ks"

definition TfIdf_addDocument :: "libs \<Rightarrow> document list \<Rightarrow> string \<Rightarrow> document list" where
  "TfIdf_addDocument L docs text = docs @ [buildDocument L text]"

definition TfIdf_listTerms :: "libs \<Rightarrow> document list \<Rightarrow> nat \<Rightarrow> (string \<times> real) list" where
  "TfIdf_listTerms L docs d =
     (if d < length docs then
        sortByScore (map (\<lambda>(term, tf). (term, tfidfMeasure L docs d term)) (docs ! d))
      else [])"

section \<open>NlpService\<close>

text \<open>
  The service object holds one TfIdf instance, created in the constructor and used by
  every call of \<open>extractKeywords\<close>. The state of the service is the list of documents
  that instance has stored.
\<close>

record NlpService =
  tfidf :: "document list"

definition new_NlpService :: NlpService where
  "new_NlpService = \<lparr>tfidf = []\<rparr>"

definition extractKeywords :: "libs \<Rightarrow> NlpService \<Rightarrow> string \<Rightarrow> nat \<Rightarrow> string list \<times> NlpService" where
  "extractKeywords L this text topN =
     (let this = this\<lparr>tfidf := TfIdf_addDocument L (tfidf this) (toLowerCase text)\<rparr>;
          keywords = filter (\<lambda>(term, score). length term > 3) (TfIdf_listTerms L (tfidf this) 0)
      in (map fst (take topN (sortByScore keywords)), this))"

definition techSkills :: "string list" where
  "techSkills =
     [''javascript'', ''python'', ''java'', ''react'', ''angular'', ''vue'',
      ''nodejs'', ''nestjs'', ''express'', ''mongodb'', ''sql'', ''postgresql'',
      ''docker'', ''kubernetes'', ''aws'', ''azure'', ''gcp'', ''git'',
      ''typescript'', ''html'', ''css'', ''rest'', ''graphql'', ''api'']"

definition softSkills :: "string list" where
  "softSkills =
     [''leadership'', ''communication'', ''teamwork'', ''problem solving'',
      ''analytical'', ''creative'', ''management'', ''collaboration'']"

definition NlpService_extractSkills :: "libs \<Rightarrow> string \<Rightarrow> string list" where
  "NlpService_extractSkills L text =
     (let allSkills = techSkills @ softSkills;
          lowerText = toLowerCase text;
          skills = foldl (\<lambda>skills skill.
                     if str_includes lowerText skill then Set_add skills skill else skills)
                   [] allSkills;
          capitalizedPhrases = acronyms L text;
          skills = foldl (\<lambda>skills phrase.
                     if length phrase > 2 then Set_add skills phrase else skills)
                   skills capitalizedPhrases
      in skills)"

text \<open>
  The sentiment score is compared with the literals \<open>0.3\<close> and \<open>-0.3\<close>. The double that
  \<open>0.3\<close> denotes is the one just below 3/10, so a double is above it exactly when it is
  above 3/10, and likewise on the negative side.
\<close>

record sentiment =
  score :: "real option"
  assessment :: string

definition NlpService_analyzeSentiment :: "libs \<Rightarrow> string \<Rightarrow> sentiment" where
  "NlpService_analyzeSentiment L text =
     (let tokens = tokenize L (toLowerCase text);
          score = getSentiment L tokens;
          assessment = (if js_gt score (3 / 10) then ''positive''
                        else if js_lt score (- (3 / 10)) then ''negative''
                        else ''neutral'')
      in \<lparr>score = score, assessment = assessment\<rparr>)"

text \<open>The record of booleans \<open>extractSections\<close> returns, as the list of its entries.\<close>

definition extractSections :: "string \<Rightarrow> (string \<times> bool) list" where
  "extractSections text =
     [(''summary'', rx_test True (alts [Lit ''summary'', Lit ''objective'', Lit ''profile'']) text),
      (''experience'',
         rx_test True (alts [Lit ''experience'', Lit ''employment'', Lit ''work history'']) text),
      (''education'',
         rx_test True
           (alts [Lit ''education'', Lit ''academic'', Lit ''degree'', Lit ''university'']) text),
      (''skills'', rx_test True (alts [Lit ''skills'', Lit ''technical'', Lit ''competencies'']) text),
      (''projects'', rx_test True (alts [Lit ''projects'', Lit ''portfolio'']) text),
      (''certifications'',
         rx_test True (alts [Lit ''certification'', Lit ''certificate'', Lit ''licensed'']) text),
      (''achievements'', rx_test True (alts [Lit ''achievement'', Lit ''award'', Lit ''honor'']) text),
      (''contact'',
         rx_test True (alts [Lit ''email'', Lit ''phone'', Lit ''linkedin'', Lit ''github'']) text)]"


text \<open>
  The three patterns of \<open>extractExperience\<close>:
  \<^verbatim>\<open>/(\d+)\+?\s*years?/i\<close>, \<^verbatim>\<open>/(\d+)\+?\s*yrs?/i\<close> and \<^verbatim>\<open>/(\d+)\s*-\s*(\d+)\s*years?/i\<close>.
\<close>

definition experiencePatterns :: "rx list" where
  "experiencePatterns =
     [seqs [Grp 1 (Rep isDigit 1 True), Opt (Lit ''+''), Rep isSpace 0 True,
            Lit ''year'', Opt (Lit ''s'')],
      seqs [Grp 1 (Rep isDigit 1 True), Opt (Lit ''+''), Rep isSpace 0 True,
            Lit ''yr'', Opt (Lit ''s'')],
      seqs [Grp 1 (Rep isDigit 1 True), Rep isSpace 0 True, Lit ''-'', Rep isSpace 0 True,
            Grp 2 (Rep isDigit 1 True), Rep isSpace 0 True, Lit ''year'', Opt (Lit ''s'')]]"

text \<open>The loop over the patterns: the first one that matches decides.\<close>

fun firstExperience :: "rx list \<Rightarrow> string \<Rightarrow> nat option" where
  "firstExperience [] text = Some 0"
| "firstExperience (pattern # patterns) text =
     (case str_match True pattern text of
        Some m \<Rightarrow> parseInt (m_groups m 1)
      | None \<Rightarrow> firstExperience patterns text)"

definition extractExperience :: "string \<Rightarrow> nat option" where
  "extractExperience text = firstExperience experiencePatterns text"

section \<open>JobDescriptionService\<close>

record experienceLevel =
  minimum :: "nat option"
  preferred :: "nat option"
  level :: string

text \<open>The pattern for the preferred years: \<^verbatim>\<open>/(\d+)\+?\s*years?.+?(?:preferred|ideal)/i\<close>.\<close>

definition preferredPattern :: rx where
  "preferredPattern =
     seqs [Grp 1 (Rep isDigit 1 True), Opt (Lit ''+''), Rep isSpace 0 True,
           Lit ''year'', Opt (Lit ''s''), Rep anyChar 1 False,
           Alt (Lit ''preferred'') (Lit ''ideal'')]"

definition extractExperienceLevel :: "string \<Rightarrow> experienceLevel" where
  "extractExperienceLevel jobText =
     (let minYears = extractExperience jobText;
          preferredMatch = str_match True preferredPattern jobText;
          preferred = (case preferredMatch of
                         Some m \<Rightarrow> parseInt (m_groups m 1)
                       | None \<Rightarrow> minYears);
          level = (if js_ge minYears 8 then ''Senior/Lead''
                   else if js_ge minYears 5 then ''Senior''
                   else if js_ge minYears 3 then ''Mid-Level''
                   else if js_ge minYears 1 then ''Junior''
                   else ''Entry Level'')
      in \<lparr>minimum = minYears, preferred = preferred, level = level\<rparr>)"

text \<open>
  The two patterns of \<open>extractRole\<close>:
  \<^verbatim>\<open>/(?:position|role|title|job)\s*:?\s*(.+)/i\<close> and
  \<^verbatim>\<open>/hiring\s+(?:a|an)?\s*(.+?)(?:\s+to|\s+for|$)/i\<close>.
\<close>

definition rolePatterns :: "rx list" where
  "rolePatterns =
     [seqs [alts [Lit ''position'', Lit ''role'', Lit ''title'', Lit ''job''],
            Rep isSpace 0 True, Opt (Lit '':''), Rep isSpace 0 True,
            Grp 1 (Rep anyChar 1 True)],
      seqs [Lit ''hiring'', Rep isSpace 1 True, Opt (Alt (Lit ''a'') (Lit ''an'')),
            Rep isSpace 0 True, Grp 1 (Rep anyChar 1 False),
            alts [Seq (Rep isSpace 1 True) (Lit ''to''),
                  Seq (Rep isSpace 1 True) (Lit ''for''),
                  Eol]]]"

definition isUpper :: "char \<Rightarrow> bool" where
  "isUpper c = (65 \<le> (of_char c :: nat) \<and> (of_char c :: nat) \<le> 90)"

text \<open>
  The inner loop of \<open>extractRole\<close> over the patterns: \<open>Some\<close> when the function leaves
  (with the role, or with the exception of \<open>match[1].trim()\<close> on an \<open>undefined\<close> group),
  \<open>None\<close> when no pattern matches the line.
\<close>

fun roleOfLine :: "rx list \<Rightarrow> string \<Rightarrow> (error + string) option" where
  "roleOfLine [] line = None"
| "roleOfLine (pattern # patterns) line =
     (case str_match True pattern line of
        Some m \<Rightarrow>
          (case m_groups m 1 of
             None \<Rightarrow> Some (Inl TypeError)
           | Some s \<Rightarrow> Some (Inr (trim s)))
      | None \<Rightarrow> roleOfLine patterns line)"

fun roleOfLines :: "string list \<Rightarrow> error + string" where
  "roleOfLines [] = Inr ''Not specified''"
| "roleOfLines (line # lines) =
     (case roleOfLine rolePatterns line of
        Some r \<Rightarrow> r
      | None \<Rightarrow>
          if length line < 50 \<and> rx_test False (Seq Bol (Cls isUpper)) line
          then Inr (trim line)
          else roleOfLines lines)"

definition extractRole :: "string \<Rightarrow> error + string" where
  "extractRole jobText =
     (let lines = filter (\<lambda>line. length (trim line) > 0) (split (CHR 0x0A) jobText)
      in roleOfLines (take 5 lines))"

text \<open>
  \<open>extractSkills\<close> of the job service. The body of its \<open>forEach\<close> is \<open>classifySkill\<close>:
  it pushes the skill on one of the two arrays, or returns early when the skill is not
  found in the lower-case text.
\<close>

definition skillContext :: "string \<Rightarrow> nat \<Rightarrow> string" where
  "skillContext lowerText skillIndex =
     (let start = nat (max 0 (int skillIndex - 100));
          end' = min (length lowerText) (skillIndex + 100)
      in substring lowerText start end')"

definition classifySkill :: "string \<Rightarrow> string list \<times> string list \<Rightarrow> string \<Rightarrow> string list \<times> string list" where
  "classifySkill lowerText acc skill =
     (let (required, preferred) = acc
      in case indexOf lowerText (toLowerCase skill) of
           None \<Rightarrow> (required, preferred)
         | Some skillIndex \<Rightarrow>
             (let context = skillContext lowerText skillIndex
              in if str_includes context ''required'' \<or>
                    str_includes context ''must have'' \<or>
                    str_includes context ''essential''
                 then (required @ [skill], preferred)
                 else if str_includes context ''preferred'' \<or>
                         str_includes context ''nice to have'' \<or>
                         str_includes context ''bonus''
                 then (required, preferred @ [skill])
                 else (required @ [skill], preferred)))"

definition classifySkills :: "string list \<Rightarrow> string \<Rightarrow> string list \<times> string list" where
  "classifySkills allSkills jobText =
     (let lowerText = toLowerCase jobText;
          (required, preferred) = foldl (classifySkill lowerText) ([], []) allSkills
      in (new_Set required, new_Set preferred))"

definition JobDescriptionService_extractSkills :: "libs \<Rightarrow> string \<Rightarrow> string list \<times> string list" where
  "JobDescriptionService_extractSkills L jobText =
     classifySkills (NlpService_extractSkills L jobText) jobText"

text \<open>
  The bullet prefix \<^verbatim>\<open>/^[-*\d.)\]]+\s*/\<close> of the two line scanners. The source's class
  also lists the bullet U+2022, which is no 8-bit character.
\<close>

definition isBullet :: "char \<Rightarrow> bool" where
  "isBullet c = (c \<in> set ''-*.)]'' \<or> isDigit c)"

definition bulletPrefix :: rx where
  "bulletPrefix = seqs [Bol, Rep isBullet 1 True, Rep isSpace 0 True]"

text \<open>
  The loop of \<open>extractResponsibilities\<close> and of \<open>extractQualifications\<close>, which differ in
  the two patterns only: \<open>start\<close> opens the section (\<open>continue\<close>), \<open>stop\<close> ends the loop
  inside it (\<open>break\<close>), and a line inside the section is kept when its cleaned text has
  more than 20 and fewer than 200 characters.
\<close>

fun sectionLines :: "rx \<Rightarrow> rx \<Rightarrow> string list \<Rightarrow> bool \<Rightarrow> string list \<Rightarrow> string list" where
  "sectionLines start stop [] inSection found = found"
| "sectionLines start stop (line # lines) inSection found =
     (let trimmed = trim line
      in if rx_test True start trimmed then sectionLines start stop lines True found
         else if inSection \<and> rx_test True stop trimmed then found
         else if inSection then
           (let cleaned = str_replace_empty False bulletPrefix trimmed
            in if length cleaned > 20 \<and> length cleaned < 200
               then sectionLines start stop lines inSection (found @ [cleaned])
               else sectionLines start stop lines inSection found)
         else sectionLines start stop lines inSection found)"

definition extractResponsibilities :: "string \<Rightarrow> string list" where
  "extractResponsibilities jobText =
     take 8 (sectionLines
       (alts [Lit ''responsibilities'', Lit ''duties'', Lit ''what you'll do''])
       (alts [Lit ''qualifications'', Lit ''requirements'', Lit ''skills''])
       (split (CHR 0x0A) jobText) False [])"

definition extractQualifications :: "string \<Rightarrow> string list" where
  "extractQualifications jobText =
     take 8 (sectionLines
       (alts [Lit ''qualifications'', Lit ''requirements'', Lit ''what we're looking for''])
       (alts [Lit ''responsibilities'', Lit ''about us'', Lit ''company''])
       (split (CHR 0x0A) jobText) False [])"

definition calculateMatchScore :: "string list \<Rightarrow> string list \<Rightarrow> string list \<Rightarrow> int" where
  "calculateMatchScore resumeSkills requiredSkills preferredSkills =
     (let score = (0 :: real);
          totalRequired = length requiredSkills;
          totalPreferred = length preferredSkills
      in if totalRequired = 0 then 50
         else
           let matchedRequired = length (filter (\<lambda>reqSkill.
                 list_ex (\<lambda>resSkill.
                   str_includes (toLowerCase resSkill) (toLowerCase reqSkill) \<or>
                   str_includes (toLowerCase reqSkill) (toLowerCase resSkill)) resumeSkills)
                 requiredSkills);
               score = fadd score (fmul (fdiv (real matchedRequired) (real totalRequired)) 70);
               score =
                 (if totalPreferred > 0 then
                    let matchedPreferred = length (filter (\<lambda>prefSkill.
                          list_ex (\<lambda>resSkill.
                            str_includes (toLowerCase resSkill) (toLowerCase prefSkill) \<or>
                            str_includes (toLowerCase prefSkill) (toLowerCase resSkill)) resumeSkills)
                          preferredSkills)
                    in fadd score (fmul (fdiv (real matchedPreferred) (real totalPreferred)) 30)
                  else fadd score 30)
           in Math_round score)"

definition missingSkills :: "string list \<Rightarrow> string list \<Rightarrow> string list" where
  "missingSkills resumeSkills skills =
     filter (\<lambda>skill.
       \<not> list_ex (\<lambda>resSkill.
           str_includes (toLowerCase resSkill) (toLowerCase skill) \<or>
           str_includes (toLowerCase skill) (toLowerCase resSkill)) resumeSkills) skills"

definition generateRecommendations :: "string list \<Rightarrow> string list \<Rightarrow> string list \<Rightarrow> string list" where
  "generateRecommendations resumeSkills requiredSkills preferredSkills =
     (let recommendations = [];
          missingRequired = missingSkills resumeSkills requiredSkills;
          recommendations =
            (if length missingRequired > 0 then
               recommendations @
               [''Critical: Add these required skills to your resume: '' @
                  join '', '' (take 5 missingRequired),
                ''Consider taking online courses or building projects to gain these skills.'']
             else recommendations);
          missingPreferred = missingSkills resumeSkills preferredSkills;
          recommendations =
            (if length missingPreferred > 0 then
               recommendations @
               [''Enhance your profile with these preferred skills: '' @
                  join '', '' (take 3 missingPreferred)]
             else recommendations)
      in recommendations @
         [''Tailor your resume to include keywords from this job description.'',
          ''Highlight projects or experiences that demonstrate the required skills.''])"

record JobAnalysis =
  role :: string
  requiredSkills :: "string list"
  preferredSkills :: "string list"
  experienceLevel :: experienceLevel
  keywords' :: "string list"
  responsibilities :: "string list"
  qualifications :: "string list"
  matchScore :: "int option"
  recommendations :: "string list option"

text \<open>
  The two entry points take the service object and return it with the result, since
  \<open>extractKeywords\<close> changes it. An exception ends them (\<open>Inl\<close>).
\<close>

definition analyzeJobDescription :: "libs \<Rightarrow> NlpService \<Rightarrow> string \<Rightarrow> error + (JobAnalysis \<times> NlpService)" where
  "analyzeJobDescription L nlpService jobText =
     (case extractRole jobText of
        Inl e \<Rightarrow> Inl e
      | Inr v \<Rightarrow>
          (let role = v;
               skills = JobDescriptionService_extractSkills L jobText;
               experienceLevel = extractExperienceLevel jobText;
               (keywords, nlpService) = extractKeywords L nlpService jobText 20;
               responsibilities = extractResponsibilities jobText;
               qualifications = extractQualifications jobText
           in Inr (\<lparr>role = role,
                      requiredSkills = fst skills,
                      preferredSkills = snd skills,
                      experienceLevel = experienceLevel,
                      keywords' = keywords,
                      responsibilities = responsibilities,
                      qualifications = qualifications,
                      matchScore = None,
                      recommendations = None\<rparr>, nlpService)))"

definition compareResumeWithJob :: "libs \<Rightarrow> NlpService \<Rightarrow> string \<Rightarrow> string \<Rightarrow> error + (JobAnalysis \<times> NlpService)" where
  "compareResumeWithJob L nlpService resumeText jobText =
     (case analyzeJobDescription L nlpService jobText of
        Inl e \<Rightarrow> Inl e
      | Inr (jobAnalysis, nlpService) \<Rightarrow>
          (let resumeSkills = NlpService_extractSkills L resumeText;
               matchScore = calculateMatchScore resumeSkills
                              (requiredSkills jobAnalysis) (preferredSkills jobAnalysis);
               recommendations = generateRecommendations resumeSkills
                                   (requiredSkills jobAnalysis) (preferredSkills jobAnalysis)
           in Inr (jobAnalysis\<lparr>matchScore := Some matchScore,
                                 recommendations := Some recommendations\<rparr>, nlpService)))"

section \<open>The skills database\<close>

record SkillCategory =
  sc_category :: string
  sc_skills :: "string list"
  sc_relatedRoles :: "string list"

definition SKILLS_DATABASE :: "SkillCategory list" where
  "SKILLS_DATABASE =
     [\<lparr>sc_category = ''Frontend Development'',
       sc_skills = [''HTML'', ''CSS'', ''JavaScript'', ''TypeScript'', ''React'', ''Angular'',
                 ''Vue.js'', ''Redux'', ''Webpack'', ''Sass'', ''Tailwind CSS'', ''Bootstrap'',
                 ''Next.js'', ''Responsive Design'', ''Web Accessibility''],
       sc_relatedRoles = [''Frontend Developer'', ''UI Developer'', ''Web Developer'']\<rparr>,
      \<lparr>sc_category = ''Backend Development'',
       sc_skills = [''Node.js'', ''NestJS'', ''Express.js'', ''Python'', ''Django'', ''Flask'',
                 ''Java'', ''Spring Boot'', ''PHP'', ''Laravel'', ''Ruby on Rails'',
                 ''RESTful APIs'', ''GraphQL'', ''Microservices'', ''Authentication''],
       sc_relatedRoles = [''Backend Developer'', ''API Developer'', ''Software Engineer'']\<rparr>,
      \<lparr>sc_category = ''Databases'',
       sc_skills = [''MongoDB'', ''PostgreSQL'', ''MySQL'', ''Redis'', ''SQLite'',
                 ''Oracle'', ''SQL Server'', ''Database Design'', ''Query Optimization'',
                 ''NoSQL'', ''Cassandra'', ''DynamoDB''],
       sc_relatedRoles = [''Database Administrator'', ''Backend Developer'', ''Data Engineer'']\<rparr>,
      \<lparr>sc_category = ''DevOps & Cloud'',
       sc_skills = [''Docker'', ''Kubernetes'', ''AWS'', ''Azure'', ''Google Cloud Platform'',
                 ''CI/CD'', ''Jenkins'', ''GitHub Actions'', ''Terraform'', ''Ansible'',
                 ''Linux'', ''Shell Scripting'', ''Nginx'', ''Monitoring''],
       sc_relatedRoles = [''DevOps Engineer'', ''Cloud Engineer'', ''Site Reliability Engineer'']\<rparr>,
      \<lparr>sc_category = ''Mobile Development'',
       sc_skills = [''React Native'', ''Flutter'', ''Swift'', ''Kotlin'', ''Android'',
                 ''iOS'', ''Xamarin'', ''Mobile UI/UX'', ''App Store Deployment'',
                 ''Push Notifications'', ''Offline Storage''],
       sc_relatedRoles = [''Mobile Developer'', ''iOS Developer'', ''Android Developer'']\<rparr>,
      \<lparr>sc_category = ''Data Science & AI'',
       sc_skills = [''Python'', ''R'', ''Machine Learning'', ''TensorFlow'', ''PyTorch'',
                 ''Scikit-learn'', ''Pandas'', ''NumPy'', ''Data Visualization'',
                 ''SQL'', ''Statistics'', ''Deep Learning'', ''NLP'', ''Computer Vision''],
       sc_relatedRoles = [''Data Scientist'', ''ML Engineer'', ''AI Researcher'']\<rparr>,
      \<lparr>sc_category = ''Testing & QA'',
       sc_skills = [''Jest'', ''Mocha'', ''Cypress'', ''Selenium'', ''Pytest'',
                 ''Unit Testing'', ''Integration Testing'', ''Test Automation'',
                 ''Performance Testing'', ''Security Testing'', ''Bug Tracking''],
       sc_relatedRoles = [''QA Engineer'', ''Test Automation Engineer'', ''SDET'']\<rparr>,
      \<lparr>sc_category = ''Soft Skills'',
       sc_skills = [''Communication'', ''Leadership'', ''Team Collaboration'', ''Problem Solving'',
                 ''Critical Thinking'', ''Time Management'', ''Adaptability'',
                 ''Project Management'', ''Agile/Scrum'', ''Mentoring''],
       sc_relatedRoles = [''All Roles'']\<rparr>,
      \<lparr>sc_category = ''Tools & Version Control'',
       sc_skills = [''Git'', ''GitHub'', ''GitLab'', ''Bitbucket'', ''JIRA'', ''Confluence'',
                 ''Slack'', ''VS Code'', ''IntelliJ IDEA'', ''Postman'', ''Figma''],
       sc_relatedRoles = [''All Technical Roles'']\<rparr>]"

section \<open>ResumeService\<close>

record resumeSections =
  found :: "string list"
  missing :: "string list"
  sec_recommendations :: "string list"

text \<open>
  The two \<open>forEach\<close> loops of \<open>analyzeSections\<close>. A section whose entry is \<open>true\<close> is
  found; any other one (\<open>false\<close>, or no entry) is missing.
\<close>

definition checkRequired :: "(string \<times> bool) list \<Rightarrow> resumeSections \<Rightarrow> string \<Rightarrow> resumeSections" where
  "checkRequired extractedSections acc section' =
     (if map_of extractedSections section' = Some True
      then acc\<lparr>found := found acc @ [section']\<rparr>
      else acc\<lparr>missing := missing acc @ [section'],
               sec_recommendations := sec_recommendations acc @
                 [''Add a '' @ section' @ '' section - this is essential for a complete resume'']\<rparr>)"

definition checkRecommended :: "(string \<times> bool) list \<Rightarrow> resumeSections \<Rightarrow> string \<Rightarrow> resumeSections" where
  "checkRecommended extractedSections acc section' =
     (if map_of extractedSections section' = Some True
      then acc\<lparr>found := found acc @ [section']\<rparr>
      else acc\<lparr>sec_recommendations := sec_recommendations acc @
                 [''Consider adding a '' @ section' @ '' section to strengthen your resume'']\<rparr>)"

definition analyzeSections :: "string \<Rightarrow> resumeSections" where
  "analyzeSections resumeText =
     (let extractedSections = extractSections resumeText;
          requiredSections = [''contact'', ''summary'', ''experience'', ''education'', ''skills''];
          recommendedSections = [''projects'', ''certifications'', ''achievements''];
          acc = \<lparr>found = [], missing = [], sec_recommendations = []\<rparr>;
          acc = foldl (checkRequired extractedSections) acc requiredSections;
          acc = foldl (checkRecommended extractedSections) acc recommendedSections
      in acc)"

record resumeSkills =
  skills_found :: "string list"
  suggested :: "string list"
  byCategory :: "(string \<times> string list) list"

text \<open>
  \<open>byCategory\<close> is an object keyed by category name, filled in the order of the
  database; the category names are distinct, so no entry is overwritten.
\<close>

definition analyzeSkills :: "libs \<Rightarrow> string \<Rightarrow> resumeSkills" where
  "analyzeSkills L resumeText =
     (let foundSkills = NlpService_extractSkills L resumeText;
          byCategory = foldl (\<lambda>byCategory c.
              let categorySkills = filter (\<lambda>skill.
                    list_ex (\<lambda>s. toLowerCase s = toLowerCase skill) (sc_skills c)) foundSkills
              in if length categorySkills > 0
                 then byCategory @ [(sc_category c, categorySkills)]
                 else byCategory) [] SKILLS_DATABASE;
          suggested = [];
          suggested =
            (if list_ex (\<lambda>s. toLowerCase s \<in> set [''react'', ''angular'', ''vue'']) foundSkills
             then
               (let suggested =
                      (if \<not> list_ex (\<lambda>s. str_includes (toLowerCase s) ''typescript'') foundSkills
                       then suggested @ [''TypeScript''] else suggested)
                in if \<not> list_ex (\<lambda>s. str_includes (toLowerCase s) ''testing'') foundSkills
                   then suggested @ [''Jest or Cypress (Testing)''] else suggested)
             else suggested);
          suggested =
            (if list_ex (\<lambda>s. toLowerCase s \<in> set [''nodejs'', ''python'', ''java'']) foundSkills
             then
               (let suggested =
                      (if \<not> list_ex (\<lambda>s. toLowerCase s \<in> set [''mongodb'', ''postgresql'', ''mysql''])
                                foundSkills
                       then suggested @ [''Database skills (MongoDB/PostgreSQL)''] else suggested)
                in if \<not> list_ex (\<lambda>s. str_includes (toLowerCase s) ''docker'') foundSkills
                   then suggested @ [''Docker (Containerization)''] else suggested)
             else suggested);
          suggested =
            (if length foundSkills < 5
             then suggested @ [''Add more technical skills relevant to your target role'']
             else suggested);
          suggested =
            (if \<not> list_ex (\<lambda>s. str_includes (toLowerCase s) ''git'') foundSkills
             then suggested @ [''Git (Version Control) - Essential for developers'']
             else suggested)
      in \<lparr>skills_found = foundSkills, suggested = suggested, byCategory = byCategory\<rparr>)"

record resumeExperience =
  years :: "nat option"
  exp_level :: string

definition analyzeExperience :: "string \<Rightarrow> resumeExperience" where
  "analyzeExperience resumeText =
     (let years = extractExperience resumeText;
          level = (if js_ge years 10 then ''Lead/Principal''
                   else if js_ge years 5 then ''Senior''
                   else if js_ge years 2 then ''Intermediate''
                   else ''Entry Level'')
      in \<lparr>years = years, exp_level = level\<rparr>)"

record resumeSentiment =
  sent_score :: "real option"
  sent_assessment :: string
  feedback :: string

definition ResumeService_analyzeSentiment :: "libs \<Rightarrow> string \<Rightarrow> resumeSentiment" where
  "ResumeService_analyzeSentiment L resumeText =
     (let sentiment = NlpService_analyzeSentiment L resumeText;
          feedback =
            (if assessment sentiment = ''positive''
             then ''Great! Your resume uses confident, positive language.''
             else if assessment sentiment = ''negative''
             then ''Consider using more positive and action-oriented language.''
             else ''Your resume language is neutral. Try adding more action verbs and achievements.'')
      in \<lparr>sent_score = score sentiment, sent_assessment = assessment sentiment,
          feedback = feedback\<rparr>)"

definition generateImprovements :: "resumeSections \<Rightarrow> resumeSkills \<Rightarrow> resumeExperience \<Rightarrow> resumeSentiment \<Rightarrow> string list" where
  "generateImprovements sections skills experience sentiment =
     (let improvements = [];
          improvements =
            (if length (missing sections) > 0
             then improvements @
               [''Missing critical sections: '' @ join '', '' (missing sections) @
                ''. Add these to make your resume complete.'']
             else improvements);
          improvements =
            (if length (skills_found skills) < 5
             then improvements @
               [''Add more relevant technical skills. Aim for at least 8-10 skills related to your target role.'']
             else improvements);
          improvements =
            (if length (suggested skills) > 0
             then improvements @
               [''Consider learning these in-demand skills: '' @
                join '', '' (take 3 (suggested skills))]
             else improvements);
          improvements =
            (if years experience = Some 0
             then improvements @
               [''Clearly mention your years of experience in each role or add a professional summary highlighting your experience.'']
             else improvements);
          improvements =
            (if sent_assessment sentiment \<noteq> ''positive''
             then improvements @
               [''Use strong action verbs (e.g., \"developed\", \"led\", \"implemented\") to describe your achievements.'']
             else improvements)
      in improvements @
         [''Quantify your achievements with numbers and metrics where possible.'',
          ''Tailor your resume for each job application by matching keywords from the job description.''])"

definition calculateOverallScore :: "resumeSections \<Rightarrow> resumeSkills \<Rightarrow> resumeExperience \<Rightarrow> resumeSentiment \<Rightarrow> int" where
  "calculateOverallScore sections skills experience sentiment =
     (let score = (0 :: real);
          sectionScore = fmul (fdiv (real (length (found sections))) 8) 40;
          score = fadd score sectionScore;
          skillScore = min (fmul (fdiv (real (length (skills_found skills))) 10) 30) 30;
          score = fadd score skillScore;
          expScore = (if js_gt (years experience) 0 then 15 else 0);
          score = fadd score expScore;
          sentScore = (if sent_assessment sentiment = ''positive'' then 15
                       else if sent_assessment sentiment = ''neutral'' then 10 else 5);
          score = fadd score sentScore
      in Math_round (min score 100))"

record ResumeAnalysis =
  overallScore :: int
  ra_sections :: resumeSections
  ra_skills :: resumeSkills
  ra_experience :: resumeExperience
  ra_keywords :: "string list"
  ra_sentiment :: resumeSentiment
  improvements :: "string list"

definition analyzeResume :: "libs \<Rightarrow> NlpService \<Rightarrow> string \<Rightarrow> ResumeAnalysis \<times> NlpService" where
  "analyzeResume L nlpService resumeText =
     (let sections = analyzeSections resumeText;
          skills = analyzeSkills L resumeText;
          experience = analyzeExperience resumeText;
          (keywords, nlpService) = extractKeywords L nlpService resumeText 15;
          sentiment = ResumeService_analyzeSentiment L resumeText;
          improvements = generateImprovements sections skills experience sentiment;
          overallScore = calculateOverallScore sections skills experience sentiment
      in (\<lparr>overallScore = overallScore,
           ra_sections = sections,
           ra_skills = skills,
           ra_experience = experience,
           ra_keywords = keywords,
           ra_sentiment = sentiment,
           improvements = improvements\<rparr>, nlpService))"

section \<open>The interview questions\<close>

datatype difficulty = easy | medium | hard

record InterviewQuestion =
  question :: string
  q_category :: string
  q_difficulty :: difficulty
  q_skills :: "string list"

definition INTERVIEW_QUESTIONS :: "InterviewQuestion list" where
  "INTERVIEW_QUESTIONS =
     [\<lparr>question = ''Explain the difference between var, let, and const in JavaScript.'',
       q_category = ''JavaScript'', q_difficulty = easy,
       q_skills = [''JavaScript'', ''TypeScript'']\<rparr>,
      \<lparr>question = ''What is closure in JavaScript? Provide an example.'',
       q_category = ''JavaScript'', q_difficulty = medium,
       q_skills = [''JavaScript'']\<rparr>,
      \<lparr>question = ''Explain the event loop in Node.js and how it handles asynchronous operations.'',
       q_category = ''JavaScript'', q_difficulty = hard,
       q_skills = [''Node.js'', ''JavaScript'']\<rparr>,
      \<lparr>question = ''What are React Hooks and why were they introduced?'',
       q_category = ''Frontend'', q_difficulty = medium,
       q_skills = [''React'']\<rparr>,
      \<lparr>question = ''Explain the difference between useEffect and useLayoutEffect.'',
       q_category = ''Frontend'', q_difficulty = hard,
       q_skills = [''React'']\<rparr>,
      \<lparr>question = ''How would you optimize the performance of a React application?'',
       q_category = ''Frontend'', q_difficulty = hard,
       q_skills = [''React'', ''Performance'']\<rparr>,
      \<lparr>question = ''What is the difference between SQL and NoSQL databases? When would you use each?'',
       q_category = ''Backend'', q_difficulty = medium,
       q_skills = [''Databases'', ''MongoDB'', ''SQL'']\<rparr>,
      \<lparr>question = ''Explain RESTful API design principles and best practices.'',
       q_category = ''Backend'', q_difficulty = medium,
       q_skills = [''REST API'', ''Backend'']\<rparr>,
      \<lparr>question = ''How would you implement authentication and authorization in a NestJS application?'',
       q_category = ''Backend'', q_difficulty = hard,
       q_skills = [''NestJS'', ''Security'', ''Authentication'']\<rparr>,
      \<lparr>question = ''Design a URL shortening service like bit.ly.'',
       q_category = ''System Design'', q_difficulty = hard,
       q_skills = [''System Design'', ''Databases'', ''Backend'']\<rparr>,
      \<lparr>question = ''How would you handle rate limiting in a REST API?'',
       q_category = ''System Design'', q_difficulty = medium,
       q_skills = [''API Design'', ''Backend'']\<rparr>,
      \<lparr>question = ''Explain the benefits of containerization with Docker.'',
       q_category = ''DevOps'', q_difficulty = easy,
       q_skills = [''Docker'', ''DevOps'']\<rparr>,
      \<lparr>question = ''What is CI/CD and how would you implement it?'',
       q_category = ''DevOps'', q_difficulty = medium,
       q_skills = [''CI/CD'', ''DevOps'']\<rparr>,
      \<lparr>question = ''Implement a function to reverse a linked list.'',
       q_category = ''Algorithms'', q_difficulty = medium,
       q_skills = [''Data Structures'', ''Algorithms'']\<rparr>,
      \<lparr>question = ''Find the first non-repeating character in a string.'',
       q_category = ''Algorithms'', q_difficulty = easy,
       q_skills = [''Algorithms'', ''Problem Solving'']\<rparr>,
      \<lparr>question = ''Tell me about a time when you had to debug a difficult production issue.'',
       q_category = ''Behavioral'', q_difficulty = medium,
       q_skills = [''Problem Solving'', ''Communication'']\<rparr>,
      \<lparr>question = ''Describe a situation where you had to work with a difficult team member.'',
       q_category = ''Behavioral'', q_difficulty = medium,
       q_skills = [''Communication'', ''Team Collaboration'']\<rparr>,
      \<lparr>question = ''How do you prioritize tasks when working on multiple projects?'',
       q_category = ''Behavioral'', q_difficulty = easy,
       q_skills = [''Time Management'', ''Project Management'']\<rparr>,
      \<lparr>question = ''What is your approach to writing clean, maintainable code?'',
       q_category = ''General'', q_difficulty = medium,
       q_skills = [''Best Practices'', ''Code Quality'']\<rparr>,
      \<lparr>question = ''How do you stay updated with new technologies and trends?'',
       q_category = ''General'', q_difficulty = easy,
       q_skills = [''Learning'', ''Adaptability'']\<rparr>]"

definition getQuestionsBySkills :: "string list \<Rightarrow> InterviewQuestion list" where
  "getQuestionsBySkills skills =
     filter (\<lambda>q.
       list_ex (\<lambda>skill.
         list_ex (\<lambda>s. str_includes (toLowerCase s) (toLowerCase skill) \<or>
                       str_includes (toLowerCase skill) (toLowerCase s)) skills)
         (q_skills q))
       INTERVIEW_QUESTIONS"

section \<open>SkillsService: interview preparation\<close>

definition getRoleSpecificQuestions :: "string \<Rightarrow> InterviewQuestion list" where
  "getRoleSpecificQuestions role' =
     (let roleLower = toLowerCase role';
          questions = [];
          questions =
            (if str_includes roleLower ''frontend''
             then questions @ filter (\<lambda>q. q_category q = ''Frontend'') INTERVIEW_QUESTIONS
             else questions);
          questions =
            (if str_includes roleLower ''backend''
             then questions @ filter (\<lambda>q. q_category q = ''Backend'') INTERVIEW_QUESTIONS
             else questions);
          questions =
            (if str_includes roleLower ''full stack'' \<or> str_includes roleLower ''fullstack''
             then questions @
                  filter (\<lambda>q. q_category q \<in> set [''Frontend'', ''Backend'', ''System Design''])
                    INTERVIEW_QUESTIONS
             else questions)
      in questions)"

definition getInterviewPrepTips :: "string list \<Rightarrow> string option \<Rightarrow> string list" where
  "getInterviewPrepTips skills targetRole =
     (let tips =
            [''Practice explaining your projects using the STAR method (Situation, Task, Action, Result)'',
             ''Review data structures and algorithms - they're common in technical interviews'',
             ''Prepare questions to ask the interviewer about the role and company'',
             ''Research the company thoroughly before the interview'',
             ''Practice coding problems on LeetCode or HackerRank''];
          tips =
            (if list_ex (\<lambda>s. toLowerCase s \<in> set [''react'', ''angular'', ''vue'']) skills
             then tips @
               [''Be ready to discuss component lifecycle and state management'',
                ''Prepare to explain how you optimize frontend performance'']
             else tips);
          tips =
            (if list_ex (\<lambda>s. toLowerCase s \<in> set [''nodejs'', ''backend'']) skills
             then tips @
               [''Review API design principles and RESTful conventions'',
                ''Be prepared to discuss database optimization and scaling'']
             else tips)
      in tips)"

text \<open>A number in a template string: its decimal digits.\<close>

fun numberToString :: "nat \<Rightarrow> string" where
  "numberToString n =
     (if n < 10 then [char_of (48 + n)]
      else numberToString (n div 10) @ [char_of (48 + n mod 10)])"

definition identifyFocusAreas :: "string list \<Rightarrow> InterviewQuestion list \<Rightarrow> string list" where
  "identifyFocusAreas skills questions =
     (let categories = new_Set (map q_category questions);
          focusAreas = foldl (\<lambda>focusAreas category.
              let categoryQuestions = filter (\<lambda>q. q_category q = category) questions;
                  hardQuestions = filter (\<lambda>q. q_difficulty q = hard) categoryQuestions
              in if length hardQuestions > 0
                 then focusAreas @
                   [category @ '': Focus on advanced concepts - '' @
                    numberToString (length hardQuestions) @ '' challenging questions identified'']
                 else focusAreas) [] categories
      in if length focusAreas > 0 then focusAreas
         else [''General Technical Knowledge'', ''Problem Solving'', ''System Design Basics''])"

text \<open>
  \<open>diversifyQuestions\<close>: up to five questions of each difficulty, in the order easy,
  medium, hard; then every question whose text is not yet in the result.
\<close>

definition diversifyQuestions :: "InterviewQuestion list \<Rightarrow> InterviewQuestion list" where
  "diversifyQuestions questions =
     (let diversified = [];
          difficulties = [easy, medium, hard];
          diversified = foldl (\<lambda>diversified difficulty.
              let filtered = filter (\<lambda>q. q_difficulty q = difficulty) questions
              in diversified @ take 5 filtered) diversified difficulties;
          diversified = foldl (\<lambda>diversified q.
              if find (\<lambda>d. question d = question q) diversified = None
              then diversified @ [q]
              else diversified) diversified questions
      in diversified)"

text \<open>
  The optional \<open>targetRole\<close> is \<open>None\<close> when it is left out; \<open>if (targetRole)\<close> also
  fails on the empty string.
\<close>

record InterviewPreparation =
  ip_skills :: "string list"
  ip_questions :: "InterviewQuestion list"
  prepTips :: "string list"
  focusAreas :: "string list"

definition getInterviewPreparation :: "libs \<Rightarrow> string \<Rightarrow> string option \<Rightarrow> InterviewPreparation" where
  "getInterviewPreparation L skillsText targetRole =
     (let skills = NlpService_extractSkills L skillsText;
          questions = getQuestionsBySkills skills;
          questions =
            (case targetRole of
               None \<Rightarrow> questions
             | Some role' \<Rightarrow>
                 if role' \<noteq> [] then questions @ getRoleSpecificQuestions role'
                 else questions);
          prepTips = getInterviewPrepTips skills targetRole;
          focusAreas = identifyFocusAreas skills questions
      in \<lparr>ip_skills = skills,
          ip_questions = take 15 (diversifyQuestions questions),
          prepTips = prepTips,
          focusAreas = focusAreas\<rparr>)"

section \<open>Notions used in the statements\<close>

text \<open>
  The groups a pattern can set, and whether every match of a pattern sets group \<open>k\<close>.
\<close>

primrec groupsOf :: "rx \<Rightarrow> nat set" where
  "groupsOf (Lit l) = {}"
| "groupsOf (Cls P) = {}"
| "groupsOf (Seq a b) = groupsOf a \<union> groupsOf b"
| "groupsOf (Alt a b) = groupsOf a \<union> groupsOf b"
| "groupsOf (Opt a) = groupsOf a"
| "groupsOf (Rep P m greedy) = {}"
| "groupsOf (Grp k a) = insert k (groupsOf a)"
| "groupsOf Bol = {}"
| "groupsOf Eol = {}"

primrec binds :: "nat \<Rightarrow> rx \<Rightarrow> bool" where
  "binds k (Lit l) = False"
| "binds k (Cls P) = False"
| "binds k (Seq a b) = (binds k a \<or> binds k b)"
| "binds k (Alt a b) = (binds k a \<and> binds k b)"
| "binds k (Opt a) = False"
| "binds k (Rep P m greedy) = False"
| "binds k (Grp j a) = (j = k \<or> binds k a)"
| "binds k Bol = False"
| "binds k Eol = False"

text \<open>
  The bidirectional containment match: one of the two strings contains the other, case
  ignored. \<open>matchedSkills resume wanted\<close> are the wanted skills that some resume skill
  matches.
\<close>

definition bidirectionalMatch :: "string \<Rightarrow> string \<Rightarrow> bool" where
  "bidirectionalMatch a b =
     (str_includes (toLowerCase a) (toLowerCase b) \<or> str_includes (toLowerCase b) (toLowerCase a))"

definition matchedSkills :: "string list \<Rightarrow> string list \<Rightarrow> string list" where
  "matchedSkills resume wanted =
     filter (\<lambda>skill. list_ex (\<lambda>resSkill. bidirectionalMatch resSkill skill) resume) wanted"





text \<open>
  A library instance for the examples: a text is one term and one token, every weight
  is 1, no sentiment score (NaN) and no acronym.
\<close>

definition exampleLibs :: libs where
  "exampleLibs =
     \<lparr>buildDocument = (\<lambda>s. [(s, 1)]),
      tfidfMeasure = (\<lambda>docs d term. 1),
      tokenize = (\<lambda>s. [s]),
      getSentiment = (\<lambda>ts. None),
      acronyms = (\<lambda>s. [])\<rparr>"


text \<open>
  The two phases of \<open>diversifyQuestions\<close>: \<open>picked\<close> are the questions the first loop
  includes (up to five of each difficulty), \<open>addUnseen\<close> is the body of the second loop.
\<close>

definition picked :: "InterviewQuestion list \<Rightarrow> InterviewQuestion list" where
  "picked questions =
     take 5 (filter (\<lambda>q. q_difficulty q = easy) questions) @
     take 5 (filter (\<lambda>q. q_difficulty q = medium) questions) @
     take 5 (filter (\<lambda>q. q_difficulty q = hard) questions)"

definition addUnseen :: "InterviewQuestion list \<Rightarrow> InterviewQuestion \<Rightarrow> InterviewQuestion list" where
  "addUnseen diversified q =
     (if find (\<lambda>d. question d = question q) diversified = None
      then diversified @ [q] else diversified)"

section \<open>Properties\<close>

subsection \<open>The matcher and its groups\<close>

lemma rx_run_keeps_group:
  "(q, g') \<in> set (rx_run i t r (p, g)) \<Longrightarrow> k \<notin> groupsOf r \<Longrightarrow> g' k = g k"
proof (induction r arbitrary: p g q g')
  case (Seq a b)
  then show ?case by (auto split: if_splits) (metis)
next
  case (Rep P m greedy)
  then show ?case by (auto simp: Let_def split: if_splits)
qed (auto split: if_splits)

lemma rx_run_binds:
  "(q, g') \<in> set (rx_run i t r (p, g)) \<Longrightarrow> binds k r \<or> g k \<noteq> None \<Longrightarrow> g' k \<noteq> None"
proof (induction r arbitrary: p g q g')
  case (Seq a b)
  from Seq.prems(1) obtain p1 g1 where
    a: "(p1, g1) \<in> set (rx_run i t a (p, g))" and b: "(q, g') \<in> set (rx_run i t b (p1, g1))"
    by auto
  show ?case
  proof (cases "binds k a \<or> g k \<noteq> None")
    case True
    with Seq.IH(1)[OF a] have "g1 k \<noteq> None" by blast
    with Seq.IH(2)[OF b] show ?thesis by blast
  next
    case False
    with Seq.prems(2) have "binds k b" by simp
    with Seq.IH(2)[OF b] show ?thesis by blast
  qed
next
  case (Rep P m greedy)
  then show ?case by (auto simp: Let_def split: if_splits)
next
  case (Grp j a)
  then show ?case by (fastforce split: if_splits)
qed (auto split: if_splits)

lemma rx_match_at_run:
  "rx_match_at i t r p = Some m \<Longrightarrow> (m_end m, m_groups m) \<in> set (rx_run i t r (p, \<lambda>k. None))"
  by (cases "rx_run i t r (p, \<lambda>k. None)") (auto simp: rx_match_at_def)

lemma rx_scan_run:
  "rx_scan i t r p n = Some m \<Longrightarrow>
   \<exists>p'. (m_end m, m_groups m) \<in> set (rx_run i t r (p', \<lambda>k. None))"
proof (induction n arbitrary: p)
  case 0
  then have "rx_match_at i t r p = Some m" by simp
  then show ?case by (intro exI[of _ p] rx_match_at_run)
next
  case (Suc n)
  show ?case
  proof (cases "rx_match_at i t r p")
    case None
    with Suc show ?thesis by simp
  next
    case (Some m')
    with Suc.prems have "m' = m" by simp
    with Some have "rx_match_at i t r p = Some m" by simp
    then show ?thesis by (intro exI[of _ p] rx_match_at_run)
  qed
qed

lemma str_match_run:
  "str_match i r t = Some m \<Longrightarrow> \<exists>p. (m_end m, m_groups m) \<in> set (rx_run i t r (p, \<lambda>k. None))"
  unfolding str_match_def by (rule rx_scan_run)

lemma take_takeWhile_all:
  "j \<le> length (takeWhile P xs) \<Longrightarrow> takeWhile P (take j xs) = take j xs"
proof (induction xs arbitrary: j)
  case Nil
  then show ?case by simp
next
  case (Cons x xs)
  then show ?case by (cases j) (auto split: if_splits)
qed

lemma digits_group:
  assumes "(q, g') \<in> set (rx_run i t (Grp k (Rep isDigit 1 True)) (p, g))"
  shows "\<exists>s. g' k = Some s \<and> s \<noteq> [] \<and> (\<forall>c \<in> set s. isDigit c)"
proof -
  from assms obtain j where j: "1 \<le> j" "j \<le> length (takeWhile isDigit (drop p t))"
    and g': "g' = g(k \<mapsto> take j (drop p t))"
    by (auto simp: Let_def simp del: upt_Suc)
  have "length (takeWhile isDigit (drop p t)) \<le> length (drop p t)"
    by (rule length_takeWhile_le)
  with j have ne: "take j (drop p t) \<noteq> []" by auto
  have "takeWhile isDigit (take j (drop p t)) = take j (drop p t)"
    using j(2) by (rule take_takeWhile_all)
  then have "\<forall>c \<in> set (take j (drop p t)). isDigit c"
    by (simp only: takeWhile_eq_all_conv)
  with ne g' show ?thesis by simp
qed

lemma parseInt_digits:
  "s \<noteq> [] \<Longrightarrow> \<forall>c \<in> set s. isDigit c \<Longrightarrow> \<exists>n. parseInt (Some s) = Some n"
proof -
  assume ne: "s \<noteq> []" and all: "\<forall>c \<in> set s. isDigit c"
  from all have tw: "takeWhile isDigit s = s" by (simp only: takeWhile_eq_all_conv)
  have "parseInt (Some s) = Some (foldl (\<lambda>n c. 10 * n + digitValue c) 0 s)"
    unfolding parseInt_def Let_def option.case tw using ne by (simp only: if_False)
  then show ?thesis ..
qed

lemma rx_run_SeqD:
  "(q, g') \<in> set (rx_run i t (Seq a b) s) \<Longrightarrow>
   \<exists>p1 g1. (p1, g1) \<in> set (rx_run i t a s) \<and> (q, g') \<in> set (rx_run i t b (p1, g1))"
  by auto

lemma seq_digits_first:
  assumes m: "str_match i (Seq (Grp 1 (Rep isDigit 1 True)) rest) t = Some m"
    and rest: "1 \<notin> groupsOf rest"
  shows "\<exists>n. parseInt (m_groups m 1) = Some n"
proof -
  from str_match_run[OF m] obtain p where
    "(m_end m, m_groups m) \<in> set (rx_run i t (Seq (Grp 1 (Rep isDigit 1 True)) rest) (p, \<lambda>k. None))" ..
  from rx_run_SeqD[OF this] obtain p1 g1 where
    a: "(p1, g1) \<in> set (rx_run i t (Grp 1 (Rep isDigit 1 True)) (p, \<lambda>k. None))"
    and b: "(m_end m, m_groups m) \<in> set (rx_run i t rest (p1, g1))"
    by blast
  from rx_run_keeps_group[OF b rest] have "m_groups m 1 = g1 1" .
  with digits_group[OF a] parseInt_digits show ?thesis by auto
qed

lemma firstExperience_defined:
  assumes "\<forall>r \<in> set ps. \<exists>rest. r = Seq (Grp 1 (Rep isDigit 1 True)) rest \<and> 1 \<notin> groupsOf rest"
  shows "\<exists>n. firstExperience ps t = Some n"
  using assms
proof (induction ps)
  case Nil
  then show ?case by simp
next
  case (Cons r ps)
  show ?case
  proof (cases "str_match True r t")
    case None
    with Cons show ?thesis by simp
  next
    case (Some m)
    from Cons.prems obtain rest where "r = Seq (Grp 1 (Rep isDigit 1 True)) rest" "1 \<notin> groupsOf rest"
      by auto
    with Some seq_digits_first show ?thesis by auto
  qed
qed

lemma extractExperience_defined: "\<exists>n. extractExperience t = Some n"
  unfolding extractExperience_def
  by (rule firstExperience_defined) (simp add: experiencePatterns_def)

subsection \<open>Rounding to a double\<close>

text \<open>
  \<open>binade\<close> is the exponent of the power of two at or below a positive number, and
  rounding to a double is monotone on the numbers from 0 on.
\<close>

lemma roundHalfEven_bounds: "\<lfloor>a\<rfloor> \<le> roundHalfEven a \<and> roundHalfEven a \<le> \<lfloor>a\<rfloor> + 1"
  by (simp add: roundHalfEven_def Let_def)

lemma roundHalfEven_of_int: "roundHalfEven (of_int n) = n"
  by (simp add: roundHalfEven_def Let_def)

lemma roundHalfEven_mono:
  assumes "a \<le> b"
  shows "roundHalfEven a \<le> roundHalfEven b"
proof (cases "\<lfloor>a\<rfloor> = \<lfloor>b\<rfloor>")
  case True
  with assms have "a - of_int \<lfloor>a\<rfloor> \<le> b - of_int \<lfloor>b\<rfloor>" by simp
  with True show ?thesis by (auto simp: roundHalfEven_def Let_def)
next
  case False
  from assms have "\<lfloor>a\<rfloor> \<le> \<lfloor>b\<rfloor>" by (rule floor_mono)
  with False have "\<lfloor>a\<rfloor> + 1 \<le> \<lfloor>b\<rfloor>" by simp
  with roundHalfEven_bounds[of a] roundHalfEven_bounds[of b] show ?thesis by linarith
qed

lemma roundHalfEven_le_int: "a \<le> of_int n \<Longrightarrow> roundHalfEven a \<le> n"
  using roundHalfEven_mono[of a "of_int n"] by (simp add: roundHalfEven_of_int)

lemma roundHalfEven_ge_int: "of_int n \<le> a \<Longrightarrow> n \<le> roundHalfEven a"
  using roundHalfEven_mono[of "of_int n" a] by (simp add: roundHalfEven_of_int)

lemma binade_bounds:
  assumes "0 < x"
  shows "2 powi binade x \<le> x \<and> x < 2 powi (binade x + 1)"
proof (cases "1 \<le> x")
  case True
  let ?n = "\<lfloor>x\<rfloor>"
  from True have n: "0 < ?n" by simp
  from bitlen_bounds[OF n] have b: "2 ^ nat (bitlen ?n - 1) \<le> ?n" "?n < 2 ^ nat (bitlen ?n)" by auto
  from n have b1: "1 \<le> bitlen ?n" by (auto simp: bitlen_alt_def)
  have "(2::real) powi (bitlen ?n - 1) = 2 ^ nat (bitlen ?n - 1)"
    using b1 by (simp add: power_int_nonneg_exp)
  also have "\<dots> = of_int (2 ^ nat (bitlen ?n - 1))" by simp
  also have "\<dots> \<le> of_int ?n" using b(1) by (simp only: of_int_le_iff)
  also have "\<dots> \<le> x" by simp
  finally have lo: "2 powi (bitlen ?n - 1) \<le> x" .
  from b(2) have "?n + 1 \<le> 2 ^ nat (bitlen ?n)" by simp
  then have "of_int (?n + 1) \<le> (of_int (2 ^ nat (bitlen ?n)) :: real)" by (simp only: of_int_le_iff)
  then have "of_int ?n + 1 \<le> (2 ^ nat (bitlen ?n) :: real)" by simp
  moreover have "x < of_int ?n + 1" by linarith
  ultimately have "x < 2 ^ nat (bitlen ?n)" by linarith
  also have "\<dots> = 2 powi (bitlen ?n)" using b1 by (simp add: power_int_nonneg_exp)
  finally have hi: "x < 2 powi (bitlen ?n - 1 + 1)" by simp
  from lo hi True show ?thesis by (simp add: binade_def)
next
  case False
  let ?c = "\<lceil>1 / x\<rceil>"
  let ?k = "bitlen (?c - 1)"
  from False assms have y: "1 < 1 / x" by simp
  then have c: "0 < ?c - 1" by (simp add: less_ceiling_iff)
  from bitlen_bounds[OF c] have b: "2 ^ nat (?k - 1) \<le> ?c - 1" "?c - 1 < 2 ^ nat ?k" by auto
  from c have k1: "1 \<le> ?k" by (auto simp: bitlen_alt_def)
  from b(2) have "?c \<le> 2 ^ nat ?k" by simp
  then have "of_int ?c \<le> (of_int (2 ^ nat ?k) :: real)" by (simp only: of_int_le_iff)
  then have "of_int ?c \<le> (2 ^ nat ?k :: real)" by simp
  moreover have "1 / x \<le> of_int ?c" by (rule le_of_int_ceiling)
  ultimately have "1 / x \<le> 2 ^ nat ?k" by linarith
  also have "\<dots> = 2 powi ?k" using k1 by (simp add: power_int_nonneg_exp)
  finally have "1 / x \<le> 2 powi ?k" .
  with assms have "1 \<le> x * 2 powi ?k" by (simp add: field_simps)
  then have lo: "2 powi (- ?k) \<le> x" by (simp add: power_int_minus field_simps)
  have "of_int ?c - 1 < 1 / x" using ceiling_correct[of "1 / x"] by simp
  moreover have "(of_int (2 ^ nat (?k - 1)) :: real) \<le> of_int (?c - 1)"
    using b(1) by (simp only: of_int_le_iff)
  then have "(2 ^ nat (?k - 1) :: real) \<le> of_int ?c - 1" by simp
  ultimately have "2 ^ nat (?k - 1) < 1 / x" by linarith
  moreover have "(2::real) ^ nat (?k - 1) = 2 powi (?k - 1)"
    using k1 by (simp add: power_int_nonneg_exp)
  ultimately have "2 powi (?k - 1) < 1 / x" by simp
  with assms have "x * 2 powi (?k - 1) < 1" by (simp add: field_simps)
  moreover have P: "0 < (2::real) powi (?k - 1)" by simp
  ultimately have "x < 1 / 2 powi (?k - 1)" by (simp only: pos_less_divide_eq)
  also have "1 / 2 powi (?k - 1) = (2::real) powi (- (?k - 1))"
    by (simp only: power_int_minus_divide)
  also have "- (?k - 1) = - ?k + 1" by simp
  finally have hi: "x < 2 powi (- ?k + 1)" .
  from lo hi False show ?thesis by (simp add: binade_def)
qed

lemma binade_mono:
  assumes "0 < x" "x \<le> y"
  shows "binade x \<le> binade y"
proof (rule ccontr)
  assume "\<not> binade x \<le> binade y"
  then have "binade y + 1 \<le> binade x" by simp
  then have "(2::real) powi (binade y + 1) \<le> 2 powi binade x"
    by (intro power_int_increasing) simp_all
  with binade_bounds[OF assms(1)] binade_bounds[of y] assms show False by linarith
qed

lemma ulp_pos: "0 < ulp a"
  by (simp add: ulp_def)

lemma roundDouble_pos: "0 < x \<Longrightarrow> roundDouble x = of_int (roundHalfEven (x / ulp x)) * ulp x"
  by (simp add: roundDouble_def)

lemma roundDouble_nonneg: "0 \<le> x \<Longrightarrow> 0 \<le> roundDouble x"
proof (cases "x = 0")
  case True
  then show ?thesis by (simp add: roundDouble_def)
next
  case False
  assume "0 \<le> x"
  with False have x: "0 < x" by simp
  have "0 \<le> x / ulp x" using x ulp_pos[of x] by simp
  then have "(0::int) \<le> roundHalfEven (x / ulp x)" by (intro roundHalfEven_ge_int) simp
  with ulp_pos[of x] show ?thesis by (simp add: roundDouble_pos[OF x])
qed

lemma roundDouble_mono_pos:
  assumes x: "0 < x" and xy: "x \<le> y"
  shows "roundDouble x \<le> roundDouble y"
proof -
  from x xy have y: "0 < y" by simp
  let ?mx = "max (binade x) (- 1022)"
  let ?my = "max (binade y) (- 1022)"
  from binade_mono[OF x xy] have m: "?mx \<le> ?my" by simp
  show ?thesis
  proof (cases "?mx = ?my")
    case True
    then have u: "ulp x = ulp y" by (simp add: ulp_def)
    from xy ulp_pos[of y] have "x / ulp y \<le> y / ulp y" by (simp add: divide_right_mono)
    then have "roundHalfEven (x / ulp y) \<le> roundHalfEven (y / ulp y)" by (rule roundHalfEven_mono)
    then have "of_int (roundHalfEven (x / ulp y)) * ulp y \<le> of_int (roundHalfEven (y / ulp y)) * ulp y"
      using ulp_pos[of y] by (simp add: mult_right_mono)
    then show ?thesis by (simp add: roundDouble_pos[OF x] roundDouble_pos[OF y] u)
  next
    case False
    with m have lt: "?mx + 1 \<le> ?my" by simp
    then have my: "?my = binade y" by (simp add: max_def split: if_splits)
    \<comment> \<open>the rounding of x stays at or below the next power of two\<close>
    have "x < 2 powi (binade x + 1)" using binade_bounds[OF x] by simp
    also have "\<dots> \<le> 2 powi (?mx + 1)" by (intro power_int_increasing) simp_all
    finally have "x < 2 powi (?mx + 1)" .
    then have "x / ulp x \<le> 2 powi (?mx + 1) / ulp x" using ulp_pos[of x] by (simp add: divide_right_mono)
    also have "2 powi (?mx + 1) / ulp x = (2::real) powi 53"
      unfolding ulp_def by (simp add: power_int_diff[symmetric] del: power_int_numeral)
    also have "\<dots> = of_int (2 ^ 53)" by simp
    finally have "roundHalfEven (x / ulp x) \<le> 2 ^ 53" by (rule roundHalfEven_le_int)
    then have "of_int (roundHalfEven (x / ulp x)) \<le> (of_int (2 ^ 53) :: real)" by (simp only: of_int_le_iff)
    then have "of_int (roundHalfEven (x / ulp x)) * ulp x \<le> of_int (2 ^ 53) * ulp x"
      using ulp_pos[of x] by (simp add: mult_right_mono)
    also have "of_int (2 ^ 53) * ulp x = (2::real) powi 53 * 2 powi (?mx - 52)" by (simp add: ulp_def)
    also have "\<dots> = 2 powi (?mx + 1)"
      by (simp add: power_int_add[symmetric] add.commute del: power_int_numeral)
    finally have fx: "roundDouble x \<le> 2 powi (?mx + 1)" by (simp add: roundDouble_pos[OF x])
    \<comment> \<open>the rounding of y stays at or above the power of two below it\<close>
    have "2 powi binade y \<le> y" using binade_bounds[OF y] by simp
    then have "2 powi binade y / ulp y \<le> y / ulp y" using ulp_pos[of y] by (simp add: divide_right_mono)
    moreover have uy: "ulp y = 2 powi (binade y - 52)" using my by (simp add: ulp_def)
    moreover have "2 powi binade y / ulp y = (2::real) powi 52"
      unfolding uy by (simp add: power_int_diff[symmetric] del: power_int_numeral)
    moreover have "(2::real) powi 52 = of_int (2 ^ 52)" by simp
    ultimately have "of_int (2 ^ 52) \<le> y / ulp y" by simp
    then have "2 ^ 52 \<le> roundHalfEven (y / ulp y)" by (rule roundHalfEven_ge_int)
    then have "(of_int (2 ^ 52) :: real) \<le> of_int (roundHalfEven (y / ulp y))" by (simp only: of_int_le_iff)
    then have "of_int (2 ^ 52) * ulp y \<le> of_int (roundHalfEven (y / ulp y)) * ulp y"
      using ulp_pos[of y] by (simp add: mult_right_mono)
    moreover have "(of_int (2 ^ 52) :: real) = 2 powi 52" by simp
    then have "of_int (2 ^ 52) * ulp y = (2::real) powi 52 * 2 powi (binade y - 52)"
      by (simp only: uy)
    moreover have "(2::real) powi 52 * 2 powi (binade y - 52) = 2 powi binade y"
      by (simp add: power_int_add[symmetric] del: power_int_numeral)
    ultimately have fy: "2 powi binade y \<le> roundDouble y" by (simp add: roundDouble_pos[OF y])
    have "(2::real) powi (?mx + 1) \<le> 2 powi binade y"
      using lt my by (intro power_int_increasing) simp_all
    with fx fy show ?thesis by linarith
  qed
qed

lemma roundDouble_mono: "0 \<le> x \<Longrightarrow> x \<le> y \<Longrightarrow> roundDouble x \<le> roundDouble y"
proof (cases "x = 0")
  case True
  assume "0 \<le> x" "x \<le> y"
  with True roundDouble_nonneg[of y] show ?thesis by (simp add: roundDouble_def)
next
  case False
  assume "0 \<le> x" "x \<le> y"
  with False show ?thesis by (intro roundDouble_mono_pos) simp_all
qed

lemma roundDouble_constants:
  "roundDouble 0 = 0" "roundDouble 1 = 1" "roundDouble 30 = 30" "roundDouble 70 = 70"
  "roundDouble 100 = 100"
  by code_simp+

text \<open>
  An operation whose exact result lies between 0 and 128 is off by at most \<open>2^-47\<close>,
  half the distance between the doubles just below 128.
\<close>

lemma roundHalfEven_error: "\<bar>of_int (roundHalfEven a) - a\<bar> \<le> 1 / 2"
proof -
  have "of_int \<lfloor>a\<rfloor> \<le> a" "a < of_int \<lfloor>a\<rfloor> + 1" by linarith+
  then show ?thesis by (auto simp: roundHalfEven_def Let_def abs_le_iff)
qed

lemma binade_less:
  assumes "0 < x" "x < 2 powi k"
  shows "binade x < k"
proof (rule ccontr)
  assume "\<not> binade x < k"
  then have "(2::real) powi k \<le> 2 powi binade x" by (intro power_int_increasing) simp_all
  with binade_bounds[OF assms(1)] assms(2) show False by linarith
qed

lemma roundDouble_error:
  assumes "0 \<le> x" "x < 128"
  shows "\<bar>roundDouble x - x\<bar> \<le> 2 powi (- 47)"
proof (cases "x = 0")
  case True
  then show ?thesis by (simp add: roundDouble_def)
next
  case False
  with assms have x: "0 < x" by simp
  have "x < 2 powi 7" using assms(2) by simp
  from binade_less[OF x this] have "max (binade x) (- 1022) - 52 \<le> - 46" by simp
  then have "ulp x \<le> 2 powi (- 46)" unfolding ulp_def by (intro power_int_increasing) simp_all
  moreover have "roundDouble x - x = (of_int (roundHalfEven (x / ulp x)) - x / ulp x) * ulp x"
    using ulp_pos[of x] by (simp add: roundDouble_pos[OF x] field_simps)
  then have "\<bar>roundDouble x - x\<bar> = \<bar>of_int (roundHalfEven (x / ulp x)) - x / ulp x\<bar> * ulp x"
    using ulp_pos[of x] by (simp add: abs_mult)
  moreover have "\<bar>of_int (roundHalfEven (x / ulp x)) - x / ulp x\<bar> * ulp x \<le> 1 / 2 * ulp x"
    using roundHalfEven_error[of "x / ulp x"] ulp_pos[of x] by (intro mult_right_mono) simp_all
  moreover have "(2::real) powi (- 47) = 1 / 2 * 2 powi (- 46)" by simp
  ultimately show ?thesis by simp
qed


lemma fadd_error:
  assumes "0 \<le> x + y" "x + y < 128"
  shows "x + y - 2 powi (- 47) \<le> fadd x y \<and> fadd x y \<le> x + y + 2 powi (- 47) \<and> 0 \<le> fadd x y"
  unfolding fadd_def using roundDouble_error[OF assms] roundDouble_nonneg[OF assms(1)]
  by (simp only: abs_diff_le_iff)

lemma fmul_error:
  assumes "0 \<le> x * y" "x * y < 128"
  shows "x * y - 2 powi (- 47) \<le> fmul x y \<and> fmul x y \<le> x * y + 2 powi (- 47) \<and> 0 \<le> fmul x y"
  unfolding fmul_def using roundDouble_error[OF assms] roundDouble_nonneg[OF assms(1)]
  by (simp only: abs_diff_le_iff)

lemma fdiv_error:
  assumes "0 \<le> x / y" "x / y < 128"
  shows "x / y - 2 powi (- 47) \<le> fdiv x y \<and> fdiv x y \<le> x / y + 2 powi (- 47) \<and> 0 \<le> fdiv x y"
  unfolding fdiv_def using roundDouble_error[OF assms] roundDouble_nonneg[OF assms(1)]
  by (simp only: abs_diff_le_iff)



subsection \<open>The match score\<close>

lemma Math_round_range:
  assumes "0 \<le> x" "x \<le> 100"
  shows "0 \<le> Math_round x \<and> Math_round x \<le> 100"
proof -
  have "x + 1 / 2 < 101" using assms by simp
  then have "\<lfloor>x + 1 / 2\<rfloor> < 101" by (simp add: floor_less_iff)
  moreover have "0 \<le> \<lfloor>x + 1 / 2\<rfloor>" using assms by simp
  ultimately show ?thesis by (simp add: Math_round_def)
qed

lemma coverage_range:
  "0 \<le> real (length (filter P xs)) / real (length xs) \<and>
   real (length (filter P xs)) / real (length xs) \<le> 1"
proof -
  have "length (filter P xs) \<le> length xs" by (rule length_filter_le)
  then have "real (length (filter P xs)) \<le> real (length xs)" by simp
  then show ?thesis by (simp add: divide_le_eq_1)
qed

lemma roundDouble_range:
  assumes "0 \<le> x" "x \<le> c" "roundDouble c = c"
  shows "0 \<le> roundDouble x \<and> roundDouble x \<le> c"
  using roundDouble_nonneg[OF assms(1)] roundDouble_mono[OF assms(1, 2)] assms(3) by simp

lemma coverage_double:
  "0 \<le> fdiv (real (length (filter P xs))) (real (length xs)) \<and>
   fdiv (real (length (filter P xs))) (real (length xs)) \<le> 1"
  unfolding fdiv_def using coverage_range[of P xs] roundDouble_constants(2)
  by (intro roundDouble_range) simp_all

lemma weighted_double:
  assumes "0 \<le> r" "r \<le> 1" "0 \<le> c" "roundDouble c = c"
  shows "0 \<le> fmul r c \<and> fmul r c \<le> c"
proof -
  from assms have "0 \<le> r * c" "r * c \<le> c" by (simp_all add: mult_left_le_one_le)
  with assms(4) show ?thesis unfolding fmul_def by (intro roundDouble_range)
qed

lemma sum_double:
  assumes "0 \<le> a" "a \<le> 70" "0 \<le> b" "b \<le> 30"
  shows "0 \<le> fadd (fadd 0 a) b \<and> fadd (fadd 0 a) b \<le> 100"
proof -
  have "0 \<le> fadd 0 a \<and> fadd 0 a \<le> 70"
    unfolding fadd_def using assms(1, 2) roundDouble_constants(4)
    by (intro roundDouble_range) simp_all
  with assms(3, 4) have "0 \<le> fadd 0 a + b" "fadd 0 a + b \<le> 100" by simp_all
  then show ?thesis
    unfolding fadd_def[of "fadd 0 a" b] using roundDouble_constants(5)
    by (intro roundDouble_range)
qed

lemma calculateMatchScore_formula:
  assumes "req \<noteq> []"
  shows "calculateMatchScore resume req pref =
         Math_round (fadd
           (fadd 0 (fmul (fdiv (real (length (matchedSkills resume req))) (real (length req))) 70))
           (if pref = [] then 30
            else fmul (fdiv (real (length (matchedSkills resume pref))) (real (length pref))) 30))"
  using assms
  by (simp add: calculateMatchScore_def matchedSkills_def bidirectionalMatch_def Let_def)

lemma required_part_range:
  "0 \<le> fmul (fdiv (real (length (matchedSkills resume req))) (real (length req))) 70 \<and>
   fmul (fdiv (real (length (matchedSkills resume req))) (real (length req))) 70 \<le> 70"
proof -
  have "0 \<le> fdiv (real (length (matchedSkills resume req))) (real (length req)) \<and>
        fdiv (real (length (matchedSkills resume req))) (real (length req)) \<le> 1"
    unfolding matchedSkills_def by (rule coverage_double)
  then show ?thesis using roundDouble_constants(4) by (intro weighted_double) simp_all
qed

lemma preferred_part_range:
  "0 \<le> (if pref = [] then 30
         else fmul (fdiv (real (length (matchedSkills resume pref))) (real (length pref))) 30) \<and>
   (if pref = [] then 30
    else fmul (fdiv (real (length (matchedSkills resume pref))) (real (length pref))) 30) \<le> 30"
proof (cases "pref = []")
  case True
  then show ?thesis by simp
next
  case False
  have "0 \<le> fdiv (real (length (matchedSkills resume pref))) (real (length pref)) \<and>
        fdiv (real (length (matchedSkills resume pref))) (real (length pref)) \<le> 1"
    unfolding matchedSkills_def by (rule coverage_double)
  then have "0 \<le> fmul (fdiv (real (length (matchedSkills resume pref))) (real (length pref))) 30 \<and>
        fmul (fdiv (real (length (matchedSkills resume pref))) (real (length pref))) 30 \<le> 30"
    using roundDouble_constants(3) by (intro weighted_double) simp_all
  with False show ?thesis by simp
qed

lemma calculateMatchScore_bounds:
  "0 \<le> calculateMatchScore resume req pref \<and> calculateMatchScore resume req pref \<le> 100"
proof (cases "req = []")
  case True
  then show ?thesis by (simp add: calculateMatchScore_def)
next
  case False
  from sum_double required_part_range[of resume req] preferred_part_range[of pref resume]
  have "0 \<le> fadd
           (fadd 0 (fmul (fdiv (real (length (matchedSkills resume req))) (real (length req))) 70))
           (if pref = [] then 30
            else fmul (fdiv (real (length (matchedSkills resume pref))) (real (length pref))) 30) \<and>
        fadd
           (fadd 0 (fmul (fdiv (real (length (matchedSkills resume req))) (real (length req))) 70))
           (if pref = [] then 30
            else fmul (fdiv (real (length (matchedSkills resume pref))) (real (length pref))) 30)
        \<le> 100"
    by blast
  then show ?thesis
    unfolding calculateMatchScore_formula[OF False] using Math_round_range by blast
qed

text \<open>
  C2. When the job lists no required skill, \<open>calculateMatchScore\<close> returns exactly 50,
  whatever the resume skills and the preferred skills are: the test for an empty
  required list comes before any scoring of preferred skills.
\<close>

theorem calculateMatchScore_no_required:
  "calculateMatchScore resume [] pref = 50"
  by (simp add: calculateMatchScore_def)

text \<open>
  C6. \<open>calculateMatchScore\<close> returns an integer between 0 and 100. When the job has a
  required skill, the score is the sum, in double arithmetic and then rounded to an
  integer, of the required part and the preferred part. The required part is 70 times
  the share of required skills matched (bidirectional containment, case ignored), a
  number from 0 to 70. The preferred part is 30 times the share of preferred skills
  matched, or the full 30 when no preferred skill is listed, a number from 0 to 30.
\<close>

theorem calculateMatchScore_range:
  "0 \<le> calculateMatchScore resume req pref \<and> calculateMatchScore resume req pref \<le> 100 \<and>
   (req \<noteq> [] \<longrightarrow>
      (let requiredPart =
             fmul (fdiv (real (length (matchedSkills resume req))) (real (length req))) 70;
           preferredPart =
             (if pref = [] then 30
              else fmul (fdiv (real (length (matchedSkills resume pref))) (real (length pref))) 30)
       in calculateMatchScore resume req pref = Math_round (fadd (fadd 0 requiredPart) preferredPart) \<and>
          0 \<le> requiredPart \<and> requiredPart \<le> 70 \<and>
          0 \<le> preferredPart \<and> preferredPart \<le> 30))"
  unfolding Let_def
  using calculateMatchScore_bounds[of resume req pref] calculateMatchScore_formula[of req resume pref]
    required_part_range[of resume req] preferred_part_range[of pref resume]
  by blast

theorem calculateMatchScore_range_witness:
  "[''a'', ''b'', ''c'', ''d'', ''e'', ''f'', ''g'', ''h'', ''i'', ''j'', ''k'', ''l''] \<noteq> [] \<and>
   calculateMatchScore
     [''a'', ''b'', ''c'', ''d'', ''e'', ''f'', ''g'', ''h'', ''i'', ''j'', ''k'']
     [''a'', ''b'', ''c'', ''d'', ''e'', ''f'', ''g'', ''h'', ''i'', ''j'', ''k'', ''l'']
     [''a'', ''m'', ''n'', ''o'', ''p'', ''q'', ''r'', ''s'', ''t''] = 67"
proof -
  let ?R = "[''a'', ''b'', ''c'', ''d'', ''e'', ''f'', ''g'', ''h'', ''i'', ''j'', ''k'']"
  let ?Q = "[''a'', ''b'', ''c'', ''d'', ''e'', ''f'', ''g'', ''h'', ''i'', ''j'', ''k'', ''l'']"
  let ?P = "[''a'', ''m'', ''n'', ''o'', ''p'', ''q'', ''r'', ''s'', ''t'']"
  have m1: "length (matchedSkills ?R ?Q) = 11" by code_simp
  have m2: "length (matchedSkills ?R ?P) = 1" by code_simp
  have v: "Math_round (fadd (fadd 0 (fmul (fdiv 11 12) 70)) (fmul (fdiv 1 9) 30)) = 67"
    by code_simp
  from calculateMatchScore_range[of ?R ?Q ?P] m1 m2 v show ?thesis by (simp add: Let_def)
qed

subsection \<open>The overall score of a resume\<close>

lemma found_checkRequired:
  "length (found (foldl (checkRequired e) acc xs)) \<le> length (found acc) + length xs"
proof (induction xs arbitrary: acc)
  case Nil
  then show ?case by simp
next
  case (Cons x xs)
  have "length (found (checkRequired e acc x)) \<le> length (found acc) + 1"
    by (simp add: checkRequired_def)
  with Cons[of "checkRequired e acc x"] show ?case by simp
qed

lemma found_checkRecommended:
  "length (found (foldl (checkRecommended e) acc xs)) \<le> length (found acc) + length xs"
proof (induction xs arbitrary: acc)
  case Nil
  then show ?case by simp
next
  case (Cons x xs)
  have "length (found (checkRecommended e acc x)) \<le> length (found acc) + 1"
    by (simp add: checkRecommended_def)
  with Cons[of "checkRecommended e acc x"] show ?case by simp
qed

lemma analyzeSections_found: "length (found (analyzeSections text)) \<le> 8"
proof -
  let ?e = "extractSections text"
  let ?a0 = "\<lparr>found = [], missing = [], sec_recommendations = []\<rparr>"
  let ?a1 = "foldl (checkRequired ?e) ?a0 [''contact'', ''summary'', ''experience'', ''education'', ''skills'']"
  have 1: "length (found ?a1) \<le> 0 + 5"
    using found_checkRequired[of ?e ?a0 "[''contact'', ''summary'', ''experience'', ''education'', ''skills'']"]
    by simp
  have "length (found (foldl (checkRecommended ?e) ?a1 [''projects'', ''certifications'', ''achievements''])) \<le> length (found ?a1) + 3"
    using found_checkRecommended[of ?e ?a1 "[''projects'', ''certifications'', ''achievements'']"]
    by simp
  with 1 show ?thesis unfolding analyzeSections_def Let_def by linarith
qed

lemma assessment_values:
  "assessment (NlpService_analyzeSentiment L text) \<in> {''positive'', ''neutral'', ''negative''}"
  by (simp add: NlpService_analyzeSentiment_def Let_def)

lemma analyzeResume_fields:
  "ra_sections (fst (analyzeResume L nlp text)) = analyzeSections text"
  "ra_skills (fst (analyzeResume L nlp text)) = analyzeSkills L text"
  "ra_experience (fst (analyzeResume L nlp text)) = analyzeExperience text"
  "ra_sentiment (fst (analyzeResume L nlp text)) = ResumeService_analyzeSentiment L text"
  "overallScore (fst (analyzeResume L nlp text)) =
     calculateOverallScore (analyzeSections text) (analyzeSkills L text) (analyzeExperience text)
       (ResumeService_analyzeSentiment L text)"
  by (simp_all add: analyzeResume_def Let_def split: prod.splits)

text \<open>
  The overall score in double arithmetic is the score in exact arithmetic: the exact sum
  of the four parts is an integer of at most 100 when at most 8 sections are found, the
  five operations on doubles that lead to it are each off by at most \<open>2^-47\<close> times the
  weight they are multiplied with afterwards, and a number that close to an integer rounds to
  that integer. From 10 skills on, the skills' part is 30 exactly, since rounding to a
  double is monotone.
\<close>

lemma skill_score_double:
  fixes n :: nat
  defines "e \<equiv> (2::real) powi (- 47)"
  shows "min (real n / 10 * 30) 30 - 31 * e \<le> min (fmul (fdiv (real n) 10) 30) 30 \<and>
         min (fmul (fdiv (real n) 10) 30) 30 \<le> min (real n / 10 * 30) 30 + 31 * e \<and>
         0 \<le> min (fmul (fdiv (real n) 10) 30) 30"
proof (cases "n < 10")
  case True
  have e: "0 \<le> e" "100 * e < 1 / 4" by (simp_all add: e_def)
  define q where "q = real n / 10"
  define b1 where "b1 = fdiv (real n) 10"
  define b2 where "b2 = fmul b1 30"
  from True have n: "0 \<le> q" "q \<le> 9 / 10" by (simp_all add: q_def)
  then have "q < 128" by linarith
  from fdiv_error[of "real n" 10] n(1) this
  have b1: "q - e \<le> b1" "b1 \<le> q + e" "0 \<le> b1"
    by (simp_all add: e_def q_def b1_def)
  from b1 n e have "0 \<le> b1 * 30" "b1 * 30 < 128" by linarith+
  from fmul_error[OF this] have b2: "b1 * 30 - e \<le> b2" "b2 \<le> b1 * 30 + e" "0 \<le> b2"
    by (simp_all add: e_def b2_def)
  from b1 b2 have d: "q * 30 - 31 * e \<le> b2" "b2 \<le> q * 30 + 31 * e" by linarith+
  from d n e have "b2 \<le> 30" "q * 30 \<le> 30" by linarith+
  then have "min b2 30 = b2" "min (q * 30) 30 = q * 30" by simp_all
  with d b2(3) show ?thesis unfolding b2_def b1_def q_def by simp
next
  case False
  have e: "0 \<le> e" by (simp add: e_def)
  from False have n: "1 \<le> real n / 10" by simp
  then have "roundDouble 1 \<le> roundDouble (real n / 10)" by (intro roundDouble_mono) simp_all
  then have "1 \<le> fdiv (real n) 10" by (simp add: fdiv_def roundDouble_constants)
  then have "30 \<le> fdiv (real n) 10 * 30" by simp
  then have "roundDouble 30 \<le> roundDouble (fdiv (real n) 10 * 30)" by (intro roundDouble_mono) simp_all
  then have "30 \<le> fmul (fdiv (real n) 10) 30" by (simp add: fmul_def roundDouble_constants)
  moreover from n have "30 \<le> real n / 10 * 30" by simp
  ultimately have "min (fmul (fdiv (real n) 10) 30) 30 = 30" "min (real n / 10 * 30) 30 = 30"
    by simp_all
  with e show ?thesis by simp
qed

lemma round_near_integer:
  fixes D :: real and K :: int
  assumes "of_int K - 1 / 4 \<le> D" "D \<le> of_int K + 1 / 4" "K \<le> 100"
  shows "Math_round (min D 100) = K"
proof (cases "K = 100")
  case True
  with assms have "100 - 1 / 4 \<le> min D 100" "min D 100 \<le> 100" by simp_all
  then have "\<lfloor>min D 100 + 1 / 2\<rfloor> = 100" by (intro floor_unique) simp_all
  with True show ?thesis by (simp add: Math_round_def)
next
  case False
  with assms(3) have "K + 1 \<le> 100" by simp
  then have "(of_int (K + 1) :: real) \<le> of_int 100" by (simp only: of_int_le_iff)
  then have "of_int K + 1 \<le> (100::real)" by simp
  with assms have "D < 100" by linarith
  then have "min D 100 = D" by simp
  moreover from assms have "\<lfloor>D + 1 / 2\<rfloor> = K" by (intro floor_unique) linarith+
  ultimately show ?thesis by (simp add: Math_round_def)
qed

lemma overall_sum_double:
  fixes f n :: nat and ex se :: real
  assumes f: "f \<le> 8" and ex: "ex = 0 \<or> ex = 15" and se: "se = 5 \<or> se = 10 \<or> se = 15"
  shows "Math_round (min (fadd (fadd (fadd (fadd 0 (fmul (fdiv (real f) 8) 40))
             (min (fmul (fdiv (real n) 10) 30) 30)) ex) se) 100) =
         Math_round (min (real f / 8 * 40 + min (real n / 10 * 30) 30 + ex + se) 100)"
proof -
  define e where "e = (2::real) powi (- 47)"
  have e: "0 \<le> e" "100 * e < 1 / 4" by (simp_all add: e_def)
  define sk where "sk = min (fmul (fdiv (real n) 10) 30) 30"
  define skE where "skE = min (real n / 10 * 30) 30"
  from skill_score_double[of n] have sk: "skE - 31 * e \<le> sk" "sk \<le> skE + 31 * e" "0 \<le> sk"
    by (simp_all add: sk_def skE_def e_def)
  have sk30: "sk \<le> 30" by (simp add: sk_def)
  define q where "q = real f / 8"
  define a1 where "a1 = fdiv (real f) 8"
  define sec where "sec = fmul a1 40"
  define s1 where "s1 = fadd 0 sec"
  define s2 where "s2 = fadd s1 sk"
  define s3 where "s3 = fadd s2 ex"
  define D where "D = fadd s3 se"
  from f have q: "0 \<le> q" "q \<le> 1" by (simp_all add: q_def)
  then have "q < 128" by linarith
  from fdiv_error[of "real f" 8] q(1) this have a1: "q - e \<le> a1" "a1 \<le> q + e" "0 \<le> a1"
    by (simp_all add: e_def q_def a1_def)
  from a1 q e have "0 \<le> a1 * 40" "a1 * 40 < 128" by linarith+
  from fmul_error[OF this] have sec: "a1 * 40 - e \<le> sec" "sec \<le> a1 * 40 + e" "0 \<le> sec"
    by (simp_all add: e_def sec_def)
  from sec a1 q e have "0 \<le> 0 + sec" "0 + sec < 128" by linarith+
  from fadd_error[OF this] have s1: "sec - e \<le> s1" "s1 \<le> sec + e" "0 \<le> s1"
    by (simp_all add: e_def s1_def)
  from s1 sec a1 q sk sk30 e have "0 \<le> s1 + sk" "s1 + sk < 128" by linarith+
  from fadd_error[OF this] have s2: "s1 + sk - e \<le> s2" "s2 \<le> s1 + sk + e" "0 \<le> s2"
    by (simp_all add: e_def s2_def)
  from ex have ex': "0 \<le> ex" "ex \<le> 15" by auto
  from s2 s1 sec a1 q sk sk30 e ex' have "0 \<le> s2 + ex" "s2 + ex < 128" by linarith+
  from fadd_error[OF this] have s3: "s2 + ex - e \<le> s3" "s3 \<le> s2 + ex + e" "0 \<le> s3"
    by (simp_all add: e_def s3_def)
  from se have se': "0 \<le> se" "se \<le> 15" by auto
  from s3 s2 s1 sec a1 q sk sk30 e ex' se' have "0 \<le> s3 + se" "s3 + se < 128" by linarith+
  from fadd_error[OF this] have s4: "s3 + se - e \<le> D" "D \<le> s3 + se + e"
    by (simp_all add: e_def D_def)
  define E where "E = q * 40 + skE + ex + se"
  from s1 s2 s3 s4 sec a1 sk have DE: "E - 76 * e \<le> D" "D \<le> E + 76 * e"
    unfolding E_def by linarith+
  \<comment> \<open>the exact sum is an integer, at most 100\<close>
  define K :: int where "K = 5 * int f + min (3 * int n) 30 + \<lfloor>ex\<rfloor> + \<lfloor>se\<rfloor>"
  have "skE = of_int (min (3 * int n) 30)" by (simp add: skE_def min_def)
  moreover have "ex = of_int \<lfloor>ex\<rfloor>" "se = of_int \<lfloor>se\<rfloor>" using ex se by auto
  ultimately have EK: "E = of_int K" unfolding E_def K_def q_def by simp
  have K100: "K \<le> 100" using f ex se unfolding K_def by auto
  from DE e have "of_int K - 1 / 4 \<le> D" "D \<le> of_int K + 1 / 4" unfolding EK by linarith+
  from round_near_integer[OF this K100] have "Math_round (min D 100) = K" .
  moreover have "Math_round (min E 100) = K"
    by (rule round_near_integer[OF _ _ K100]) (simp_all add: EK)
  ultimately show ?thesis
    unfolding D_def E_def s3_def s2_def s1_def sec_def a1_def q_def sk_def skE_def by simp
qed

lemma calculateOverallScore_exact:
  assumes "length (found sections) \<le> 8"
  shows "calculateOverallScore sections skills experience sentiment =
         Math_round (min (real (length (found sections)) / 8 * 40 +
           min (real (length (skills_found skills)) / 10 * 30) 30 +
           (if js_gt (years experience) 0 then 15 else 0) +
           (if sent_assessment sentiment = ''positive'' then 15
            else if sent_assessment sentiment = ''neutral'' then 10 else 5)) 100)"
  unfolding calculateOverallScore_def Let_def
  by (rule overall_sum_double[OF assms]) auto

text \<open>
  C7. The overall score of every resume analysis is the rounded sum, capped at 100, of
  four parts: 40 times the share of the 8 sections found, 30 times a tenth of the number
  of skills found but at most 30, 15 when the years of experience are positive, and 15,
  10 or 5 for a positive, neutral or negative assessment (the assessment is always one
  of the three). The score is therefore an integer between 0 and 100.
\<close>

theorem overallScore_formula:
  "let r = fst (analyzeResume L nlp text);
       sectionScore = 40 * (real (length (found (ra_sections r))) / 8);
       skillScore = min (30 * real (length (skills_found (ra_skills r))) / 10) 30;
       expScore = (if js_gt (years (ra_experience r)) 0 then 15 else 0);
       sentScore = (if sent_assessment (ra_sentiment r) = ''positive'' then 15
                    else if sent_assessment (ra_sentiment r) = ''neutral'' then 10 else 5)
   in overallScore r = Math_round (min (sectionScore + skillScore + expScore + sentScore) 100) \<and>
      0 \<le> overallScore r \<and> overallScore r \<le> 100 \<and>
      length (found (ra_sections r)) \<le> 8 \<and>
      sent_assessment (ra_sentiment r) \<in> {''positive'', ''neutral'', ''negative''}"
proof -
  let ?r = "fst (analyzeResume L nlp text)"
  let ?sec = "40 * (real (length (found (ra_sections ?r))) / 8)"
  let ?sk = "min (30 * real (length (skills_found (ra_skills ?r))) / 10) 30"
  let ?ex = "if js_gt (years (ra_experience ?r)) 0 then 15 else (0::real)"
  let ?se = "if sent_assessment (ra_sentiment ?r) = ''positive'' then 15
             else if sent_assessment (ra_sentiment ?r) = ''neutral'' then 10 else (5::real)"
  let ?sum = "min (?sec + ?sk + ?ex + ?se) 100"
  have "length (found (analyzeSections text)) \<le> 8" by (rule analyzeSections_found)
  from calculateOverallScore_exact[OF this]
  have eq: "overallScore ?r = Math_round ?sum"
    by (simp add: analyzeResume_fields Let_def)
  have "0 \<le> ?sec" "0 \<le> ?sk" "0 \<le> ?ex" "0 \<le> ?se" by simp_all
  then have "0 \<le> ?sum \<and> ?sum \<le> 100" by linarith
  then have rng: "0 \<le> Math_round ?sum \<and> Math_round ?sum \<le> 100" using Math_round_range by blast
  have f: "length (found (ra_sections ?r)) \<le> 8"
    by (simp add: analyzeResume_fields analyzeSections_found)
  have a: "sent_assessment (ra_sentiment ?r) \<in> {''positive'', ''neutral'', ''negative''}"
    using assessment_values[of L "text"]
    by (simp add: analyzeResume_fields ResumeService_analyzeSentiment_def Let_def)
  from eq rng f a show ?thesis unfolding Let_def by simp
qed



subsection \<open>Years of experience and levels\<close>

text \<open>
  C4, as the code has it. The years found in a text are a number (never NaN), and both
  services derive the level from them with closed integer boundaries. The job service:
  8 or more is Senior/Lead, 5 to 7 Senior, 3 to 4 Mid-Level, 1 to 2 Junior, 0 Entry
  Level. The resume service has boundaries of its own: 10 or more is Lead/Principal,
  5 to 9 Senior, 2 to 4 Intermediate, 0 to 1 Entry Level.
\<close>

theorem experience_levels:
  "\<exists>y. extractExperience text = Some y \<and>
        minimum (extractExperienceLevel text) = Some y \<and>
        years (analyzeExperience text) = Some y \<and>
        level (extractExperienceLevel text) =
          (if 8 \<le> y then ''Senior/Lead''
           else if 5 \<le> y then ''Senior''
           else if 3 \<le> y then ''Mid-Level''
           else if 1 \<le> y then ''Junior''
           else ''Entry Level'') \<and>
        exp_level (analyzeExperience text) =
          (if 10 \<le> y then ''Lead/Principal''
           else if 5 \<le> y then ''Senior''
           else if 2 \<le> y then ''Intermediate''
           else ''Entry Level'')"
proof -
  from extractExperience_defined obtain y where y: "extractExperience text = Some y" ..
  then show ?thesis
    by (simp add: extractExperienceLevel_def analyzeExperience_def Let_def js_ge_def)
qed

theorem experience_levels_witness:
  "extractExperience ''9 years of Java'' = Some 9 \<and>
   level (extractExperienceLevel ''9 years of Java'') = ''Senior/Lead'' \<and>
   exp_level (analyzeExperience ''9 years of Java'') = ''Senior''"
proof -
  have "extractExperience ''9 years of Java'' = Some 9" by code_simp
  with experience_levels[of "''9 years of Java''"] show ?thesis by simp
qed

text \<open>
  C4 as stated fails on the resume path: 8 years give Senior there, not Senior/Lead, and
  2 years give Intermediate, not Entry Level.
\<close>

theorem resume_level_counterexample:
  "years (analyzeExperience ''8 years'') = Some 8 \<and>
   exp_level (analyzeExperience ''8 years'') = ''Senior'' \<and>
   exp_level (analyzeExperience ''8 years'') \<noteq> ''Senior/Lead'' \<and>
   years (analyzeExperience ''2 years'') = Some 2 \<and>
   exp_level (analyzeExperience ''2 years'') = ''Intermediate'' \<and>
   exp_level (analyzeExperience ''2 years'') \<noteq> ''Entry Level''"
  by code_simp

text \<open>
  C3. On the text "5+ years required, 8+ years preferred" the minimum is 5, and the
  preferred years are 5 as well, not 8: the pattern for the preferred years matches from
  the first "5+ years" and runs on to the word "preferred".
\<close>

theorem preferred_years_of_first_mention:
  "extractExperienceLevel ''5+ years required, 8+ years preferred'' =
     \<lparr>minimum = Some 5, preferred = Some 5, level = ''Senior''\<rparr>"
  by code_simp



subsection \<open>Required and preferred skills of a job\<close>



















subsection \<open>Diversified interview questions\<close>

lemma diversifyQuestions_eq: "diversifyQuestions qs = foldl addUnseen (picked qs) qs"
proof -
  have "(\<lambda>diversified q.
           if find (\<lambda>d. question d = question q) diversified = None
           then diversified @ [q] else diversified) = addUnseen"
    by (intro ext) (simp add: addUnseen_def)
  then show ?thesis by (simp add: diversifyQuestions_def picked_def Let_def)
qed

lemma addUnseen_questions:
  "question ` set (foldl addUnseen acc xs) = question ` set acc \<union> question ` set xs"
proof (induction xs arbitrary: acc)
  case Nil
  then show ?case by simp
next
  case (Cons x xs)
  have "question ` set (addUnseen acc x) = insert (question x) (question ` set acc)"
  proof (cases "find (\<lambda>d. question d = question x) acc = None")
    case True
    then show ?thesis by (simp add: addUnseen_def)
  next
    case False
    then obtain d where "d \<in> set acc" "question d = question x"
      by (auto simp: find_None_iff)
    then have "question x \<in> question ` set acc" by (metis imageI)
    with False show ?thesis by (simp add: addUnseen_def insert_absorb)
  qed
  with Cons.IH[of "addUnseen acc x"] show ?case by auto
qed

lemma addUnseen_distinct:
  "distinct (map question acc) \<Longrightarrow> distinct (map question (foldl addUnseen acc xs))"
proof (induction xs arbitrary: acc)
  case Nil
  then show ?case by simp
next
  case (Cons x xs)
  from Cons.prems have "distinct (map question (addUnseen acc x))"
    by (auto simp: addUnseen_def find_None_iff)
  with Cons.IH show ?case by simp
qed

lemma addUnseen_subset: "set (foldl addUnseen acc xs) \<subseteq> set acc \<union> set xs"
proof (induction xs arbitrary: acc)
  case Nil
  then show ?case by simp
next
  case (Cons x xs)
  have "set (addUnseen acc x) \<subseteq> insert x (set acc)" by (auto simp: addUnseen_def)
  with Cons.IH[of "addUnseen acc x"] show ?case by auto
qed

lemma addUnseen_prefix: "\<exists>rest. foldl addUnseen acc xs = acc @ rest"
proof (induction xs arbitrary: acc)
  case Nil
  then show ?case by simp
next
  case (Cons x xs)
  from Cons.IH[of "addUnseen acc x"] obtain rest where
    r: "foldl addUnseen (addUnseen acc x) xs = addUnseen acc x @ rest" ..
  have "\<exists>more. addUnseen acc x = acc @ more" by (simp add: addUnseen_def)
  then obtain more where "addUnseen acc x = acc @ more" ..
  with r have "foldl addUnseen (acc) (x # xs) = acc @ (more @ rest)" by simp
  then show ?case ..
qed

lemma picked_subset: "set (picked qs) \<subseteq> set qs"
  by (auto simp: picked_def dest: in_set_takeD)

lemma distinct_take_filter:
  "distinct (map f xs) \<Longrightarrow> distinct (map f (take n (filter P xs)))"
proof -
  assume "distinct (map f xs)"
  then have "distinct (map f (filter P xs))" by (rule distinct_map_filter)
  then have "distinct (take n (map f (filter P xs)))" by (rule distinct_take)
  then show ?thesis by (simp add: take_map)
qed

lemma picked_distinct:
  assumes "distinct (map question qs)"
  shows "distinct (map question (picked qs))"
proof -
  from assms have inj: "inj_on question (set qs)" by (simp add: distinct_map)
  have sep: "question x \<noteq> question y"
    if "x \<in> set (take 5 (filter (\<lambda>q. q_difficulty q = a) qs))"
      and "y \<in> set (take 5 (filter (\<lambda>q. q_difficulty q = b) qs))" and "a \<noteq> b" for x y a b
  proof
    assume eq: "question x = question y"
    from that(1) have x: "x \<in> set qs" "q_difficulty x = a" by (auto dest: in_set_takeD)
    from that(2) have y: "y \<in> set qs" "q_difficulty y = b" by (auto dest: in_set_takeD)
    from inj x(1) y(1) eq have "x = y" by (auto dest: inj_onD)
    with x(2) y(2) that(3) show False by simp
  qed
  have d: "distinct (map question (take 5 (filter (\<lambda>q. q_difficulty q = a) qs)))" for a
    using assms by (rule distinct_take_filter)
  show ?thesis
    unfolding picked_def using d sep[of _ easy _ medium] sep[of _ easy _ hard] sep[of _ medium _ hard]
    by (auto simp: image_iff)
qed

text \<open>
  C5, as the code has it. \<open>diversifyQuestions\<close> keeps the questions its first loop
  included as the start of its result, and the texts of its result are exactly the texts
  of its input: no question text is dropped. When no two input questions have the same
  text, no two output questions have, and the output has the same questions as the
  input. The function does not truncate: \<open>getInterviewPreparation\<close> returns the first 15
  questions of its result, hence at most 15.
\<close>

theorem diversifyQuestions_keeps_questions:
  "(\<exists>rest. diversifyQuestions qs = picked qs @ rest) \<and>
   question ` set (diversifyQuestions qs) = question ` set qs \<and>
   (distinct (map question qs) \<longrightarrow>
      distinct (map question (diversifyQuestions qs)) \<and> set (diversifyQuestions qs) = set qs) \<and>
   (\<exists>gathered. ip_questions (getInterviewPreparation L skillsText targetRole) =
      take 15 (diversifyQuestions gathered)) \<and>
   length (ip_questions (getInterviewPreparation L skillsText targetRole)) \<le> 15"
proof -
  have 1: "\<exists>rest. diversifyQuestions qs = picked qs @ rest"
    unfolding diversifyQuestions_eq by (rule addUnseen_prefix)
  have 2: "question ` set (diversifyQuestions qs) = question ` set qs"
    unfolding diversifyQuestions_eq addUnseen_questions using picked_subset[of qs] by auto
  have sub: "set (diversifyQuestions qs) \<subseteq> set qs"
    unfolding diversifyQuestions_eq using addUnseen_subset[of "picked qs" qs] picked_subset[of qs]
    by auto
  have 3: "distinct (map question (diversifyQuestions qs)) \<and> set (diversifyQuestions qs) = set qs"
    if d: "distinct (map question qs)"
  proof
    show "distinct (map question (diversifyQuestions qs))"
      unfolding diversifyQuestions_eq using picked_distinct[OF d] by (rule addUnseen_distinct)
    from d have inj: "inj_on question (set qs)" by (simp add: distinct_map)
    have "q \<in> set (diversifyQuestions qs)" if q: "q \<in> set qs" for q
    proof -
      from q 2 have "question q \<in> question ` set (diversifyQuestions qs)" by auto
      then obtain d' where d': "d' \<in> set (diversifyQuestions qs)" "question d' = question q"
        by auto
      with sub have "d' \<in> set qs" by auto
      with inj q d'(2) have "d' = q" by (auto dest: inj_onD)
      with d'(1) show ?thesis by simp
    qed
    with sub show "set (diversifyQuestions qs) = set qs" by auto
  qed
  have 4: "\<exists>gathered. ip_questions (getInterviewPreparation L skillsText targetRole) =
      take 15 (diversifyQuestions gathered)"
    by (simp add: getInterviewPreparation_def Let_def) blast
  have 5: "length (ip_questions (getInterviewPreparation L skillsText targetRole)) \<le> 15"
    by (simp add: getInterviewPreparation_def Let_def)
  from 1 2 3 4 5 show ?thesis by blast
qed

theorem diversifyQuestions_keeps_questions_witness:
  "distinct (map question (take 3 INTERVIEW_QUESTIONS)) \<and>
   distinct (map question (diversifyQuestions (take 3 INTERVIEW_QUESTIONS))) \<and>
   set (diversifyQuestions (take 3 INTERVIEW_QUESTIONS)) = set (take 3 INTERVIEW_QUESTIONS)"
proof -
  have d: "distinct (map question (take 3 INTERVIEW_QUESTIONS))" by code_simp
  with diversifyQuestions_keeps_questions[of "take 3 INTERVIEW_QUESTIONS"] show ?thesis
    by blast
qed

text \<open>
  C5 as stated fails twice. On the whole question bank \<open>diversifyQuestions\<close> returns 20
  questions. On the questions \<open>getInterviewPreparation\<close> gathers for the skill "react"
  and the role "frontend" (the React questions, then all Frontend questions again) its
  result has a question text twice: the first loop takes the duplicates as they come.
\<close>

theorem diversifyQuestions_counterexample:
  "length (diversifyQuestions INTERVIEW_QUESTIONS) = 20 \<and>
   \<not> distinct (map question
        (diversifyQuestions (getQuestionsBySkills [''react''] @ getRoleSpecificQuestions ''frontend'')))"
  by code_simp



subsection \<open>Keywords and the stored documents\<close>

text \<open>
  Once the service has stored a document, the keywords of every later call are terms of
  the first stored document, whatever text the call is given: \<open>listTerms(0)\<close> reads the
  document number 0.
\<close>

lemma sortByScore_single: "sortByScore [k] = [k]"
  by (simp add: sortByScore_def)

lemma extractKeywords_first_document:
  assumes "tfidf this \<noteq> []"
  shows "set (fst (extractKeywords L this text topN)) \<subseteq> fst ` set (hd (tfidf this))"
proof -
  obtain d ds where ds: "tfidf this = d # ds" using assms by (cases "tfidf this") auto
  let ?terms = "TfIdf_listTerms L (tfidf this @ [buildDocument L (toLowerCase text)]) 0"
  have "fst ` set ?terms = fst ` set d"
    by (force simp: TfIdf_listTerms_def ds sortByScore_def)
  moreover have "set (fst (extractKeywords L this text topN)) \<subseteq> fst ` set ?terms"
    by (auto simp: extractKeywords_def TfIdf_addDocument_def Let_def sortByScore_def
          dest!: in_set_takeD)
  ultimately show ?thesis by (simp add: ds)
qed


text \<open>
  C1. The result of \<open>extractKeywords\<close> depends on the calls made before. For a library
  that keeps the one term of each of the one-word texts "python" and "plumber": a new
  service returns the keyword "plumber" for the text "plumber"; the same call after a
  call with the text "python" returns the keyword "python".
\<close>

theorem extractKeywords_depends_on_history:
  assumes "buildDocument L ''python'' = [(''python'', 1)]"
    and "buildDocument L ''plumber'' = [(''plumber'', 1)]"
  shows "fst (extractKeywords L new_NlpService ''plumber'' 10) = [''plumber''] \<and>
         fst (extractKeywords L (snd (extractKeywords L new_NlpService ''python'' 10))
                ''plumber'' 10) = [''python'']"
proof -
  have l: "toLowerCase ''python'' = ''python''" "toLowerCase ''plumber'' = ''plumber''"
    by code_simp+
  have 1: "fst (extractKeywords L new_NlpService ''plumber'' 10) = [''plumber'']"
    by (simp add: extractKeywords_def new_NlpService_def TfIdf_addDocument_def
          TfIdf_listTerms_def l assms sortByScore_single Let_def)
  have 2: "snd (extractKeywords L new_NlpService ''python'' 10) = \<lparr>tfidf = [[(''python'', 1)]]\<rparr>"
    by (simp add: extractKeywords_def new_NlpService_def TfIdf_addDocument_def l assms Let_def)
  have 3: "fst (extractKeywords L \<lparr>tfidf = [[(''python'', 1)]]\<rparr> ''plumber'' 10) = [''python'']"
    by (simp add: extractKeywords_def TfIdf_addDocument_def
          TfIdf_listTerms_def l assms sortByScore_single Let_def)
  from 1 2 3 show ?thesis by simp
qed

theorem extractKeywords_depends_on_history_witness:
  "buildDocument exampleLibs ''python'' = [(''python'', 1)] \<and>
   buildDocument exampleLibs ''plumber'' = [(''plumber'', 1)] \<and>
   fst (extractKeywords exampleLibs new_NlpService ''plumber'' 10) = [''plumber''] \<and>
   fst (extractKeywords exampleLibs (snd (extractKeywords exampleLibs new_NlpService ''python'' 10))
          ''plumber'' 10) = [''python'']"
proof -
  have a: "buildDocument exampleLibs ''python'' = [(''python'', 1)]"
    and b: "buildDocument exampleLibs ''plumber'' = [(''plumber'', 1)]"
    by (simp_all add: exampleLibs_def)
  from extractKeywords_depends_on_history[OF a b] a b show ?thesis by simp
qed


subsection \<open>The core operations never fail\<close>

text \<open>
  The only operation of the three entry points that can throw is \<open>match[1].trim()\<close> in
  \<open>extractRole\<close>, when group 1 is \<open>undefined\<close>. Both role patterns set group 1 in every
  match, so it never throws.
\<close>

lemma str_match_binds:
  assumes "str_match i r t = Some m" and "binds k r"
  shows "m_groups m k \<noteq> None"
proof -
  from str_match_run[OF assms(1)] obtain p where
    "(m_end m, m_groups m) \<in> set (rx_run i t r (p, \<lambda>k. None))" ..
  from rx_run_binds[OF this] assms(2) show ?thesis by blast
qed

lemma roleOfLine_no_error:
  assumes "\<forall>r \<in> set ps. binds 1 r"
  shows "roleOfLine ps line = None \<or> (\<exists>s. roleOfLine ps line = Some (Inr s))"
  using assms
proof (induction ps)
  case Nil
  then show ?case by simp
next
  case (Cons r ps)
  show ?case
  proof (cases "str_match True r line")
    case None
    with Cons show ?thesis by simp
  next
    case (Some m)
    from Cons.prems have "binds 1 r" by simp
    from str_match_binds[OF Some this] obtain s where "m_groups m 1 = Some s" by auto
    with Some show ?thesis by simp
  qed
qed

lemma rolePatterns_bind: "\<forall>r \<in> set rolePatterns. binds 1 r"
  by (simp add: rolePatterns_def)

lemma roleOfLines_no_error: "\<exists>s. roleOfLines lines = Inr s"
proof (induction lines)
  case Nil
  then show ?case by simp
next
  case (Cons line lines)
  from roleOfLine_no_error[OF rolePatterns_bind, of line]
  show ?case using Cons.IH by (auto split: option.splits)
qed

lemma extractRole_no_error: "\<exists>s. extractRole jobText = Inr s"
  unfolding extractRole_def Let_def by (rule roleOfLines_no_error)

lemma analyzeJobDescription_result:
  "\<exists>role' kw nlp'.
     analyzeJobDescription L nlp jobText =
       Inr (\<lparr>role = role',
             requiredSkills = fst (JobDescriptionService_extractSkills L jobText),
             preferredSkills = snd (JobDescriptionService_extractSkills L jobText),
             experienceLevel = extractExperienceLevel jobText,
             keywords' = kw,
             responsibilities = extractResponsibilities jobText,
             qualifications = extractQualifications jobText,
             matchScore = None,
             recommendations = None\<rparr>, nlp')"
proof -
  from extractRole_no_error obtain s where "extractRole jobText = Inr s" ..
  then show ?thesis
    by (simp add: analyzeJobDescription_def Let_def split: prod.splits)
qed

lemma no_skills_no_buckets:
  "NlpService_extractSkills L jobText = [] \<Longrightarrow>
   JobDescriptionService_extractSkills L jobText = ([], [])"
  by (simp add: JobDescriptionService_extractSkills_def classifySkills_def new_Set_def)

lemma no_years_entry_level:
  "extractExperience t = Some 0 \<Longrightarrow>
   minimum (extractExperienceLevel t) = Some 0 \<and> level (extractExperienceLevel t) = ''Entry Level'' \<and>
   analyzeExperience t = \<lparr>years = Some 0, exp_level = ''Entry Level''\<rparr>"
  by (simp add: extractExperienceLevel_def analyzeExperience_def js_ge_def Let_def)

lemma checkRequired_absent:
  assumes "\<forall>k. map_of e k \<noteq> Some True"
  shows "foldl (checkRequired e) acc xs =
         acc\<lparr>missing := missing acc @ xs,
             sec_recommendations := sec_recommendations acc @
               map (\<lambda>s. ''Add a '' @ s @ '' section - this is essential for a complete resume'') xs\<rparr>"
  using assms by (induction xs arbitrary: acc) (simp_all add: checkRequired_def)

lemma checkRecommended_absent:
  assumes "\<forall>k. map_of e k \<noteq> Some True"
  shows "foldl (checkRecommended e) acc xs =
         acc\<lparr>sec_recommendations := sec_recommendations acc @
               map (\<lambda>s. ''Consider adding a '' @ s @ '' section to strengthen your resume'') xs\<rparr>"
  using assms by (induction xs arbitrary: acc) (simp_all add: checkRecommended_def)

lemma no_sections:
  assumes "\<forall>k. map_of (extractSections t) k \<noteq> Some True"
  shows "found (analyzeSections t) = [] \<and>
         missing (analyzeSections t) = [''contact'', ''summary'', ''experience'', ''education'', ''skills'']"
  unfolding analyzeSections_def Let_def checkRequired_absent[OF assms]
    checkRecommended_absent[OF assms]
  by simp

lemma no_skills_resume:
  "NlpService_extractSkills L t = [] \<Longrightarrow>
   skills_found (analyzeSkills L t) = [] \<and> byCategory (analyzeSkills L t) = []"
proof -
  assume e: "NlpService_extractSkills L t = []"
  have "foldl (\<lambda>byCategory c. byCategory) ([] :: (string \<times> string list) list) cs = []" for cs :: "SkillCategory list"
    by (induction cs) simp_all
  with e show ?thesis by (simp add: analyzeSkills_def Let_def)
qed

lemma neutral_sentiment:
  "\<not> js_gt (getSentiment L (tokenize L (toLowerCase t))) (3 / 10) \<Longrightarrow>
   \<not> js_lt (getSentiment L (tokenize L (toLowerCase t))) (- (3 / 10)) \<Longrightarrow>
   sent_assessment (ResumeService_analyzeSentiment L t) = ''neutral''"
  by (simp add: ResumeService_analyzeSentiment_def NlpService_analyzeSentiment_def Let_def)

text \<open>
  C9. For every text, library and service state: \<open>analyzeJobDescription\<close> and
  \<open>compareResumeWithJob\<close> return a result and no exception, and \<open>analyzeResume\<close> (which
  has no operation that can throw) returns a score between 0 and 100 and years that are
  a number. Absent features give the default outputs: no skill found gives empty skill
  lists and, in a comparison, the match score 50; no years found give 0 years and the
  level Entry Level; no section found gives an empty list of found sections and the five
  required sections as missing; a sentiment score that is NaN or within 0.3 of zero gives
  the assessment neutral. With all of these absent the overall score is 10: zero for
  sections, skills and experience, and the 10 of a neutral assessment.
\<close>

theorem core_operations_total:
  "(case analyzeJobDescription L nlp jobText of
      Inl e \<Rightarrow> False
    | Inr (j, nlp') \<Rightarrow>
        matchScore j = None \<and>
        (NlpService_extractSkills L jobText = [] \<longrightarrow>
           requiredSkills j = [] \<and> preferredSkills j = []) \<and>
        (extractExperience jobText = Some 0 \<longrightarrow>
           minimum (experienceLevel j) = Some 0 \<and> level (experienceLevel j) = ''Entry Level'')) \<and>
   (case compareResumeWithJob L nlp resumeText jobText of
      Inl e \<Rightarrow> False
    | Inr (j, nlp') \<Rightarrow>
        (\<exists>m. matchScore j = Some m \<and> 0 \<le> m \<and> m \<le> 100) \<and>
        (NlpService_extractSkills L jobText = [] \<longrightarrow> matchScore j = Some 50)) \<and>
   (let r = fst (analyzeResume L nlp resumeText)
    in 0 \<le> overallScore r \<and> overallScore r \<le> 100 \<and>
       (\<exists>y. years (ra_experience r) = Some y) \<and>
       ((\<forall>k. map_of (extractSections resumeText) k \<noteq> Some True) \<longrightarrow>
          found (ra_sections r) = [] \<and>
          missing (ra_sections r) =
            [''contact'', ''summary'', ''experience'', ''education'', ''skills'']) \<and>
       (NlpService_extractSkills L resumeText = [] \<longrightarrow>
          skills_found (ra_skills r) = [] \<and> byCategory (ra_skills r) = []) \<and>
       (extractExperience resumeText = Some 0 \<longrightarrow>
          ra_experience r = \<lparr>years = Some 0, exp_level = ''Entry Level''\<rparr>) \<and>
       (\<not> js_gt (getSentiment L (tokenize L (toLowerCase resumeText))) (3 / 10) \<and>
        \<not> js_lt (getSentiment L (tokenize L (toLowerCase resumeText))) (- (3 / 10)) \<longrightarrow>
          sent_assessment (ra_sentiment r) = ''neutral'') \<and>
       (found (ra_sections r) = [] \<and> skills_found (ra_skills r) = [] \<and>
        years (ra_experience r) = Some 0 \<and> sent_assessment (ra_sentiment r) = ''neutral'' \<longrightarrow>
          overallScore r = 10))"
proof -
  from analyzeJobDescription_result[of L nlp jobText] obtain role' kw nlp' where
    j: "analyzeJobDescription L nlp jobText =
       Inr (\<lparr>role = role',
             requiredSkills = fst (JobDescriptionService_extractSkills L jobText),
             preferredSkills = snd (JobDescriptionService_extractSkills L jobText),
             experienceLevel = extractExperienceLevel jobText,
             keywords' = kw,
             responsibilities = extractResponsibilities jobText,
             qualifications = extractQualifications jobText,
             matchScore = None,
             recommendations = None\<rparr>, nlp')"
    by blast
  have job: "case analyzeJobDescription L nlp jobText of
      Inl e \<Rightarrow> False
    | Inr (j, nlp') \<Rightarrow>
        matchScore j = None \<and>
        (NlpService_extractSkills L jobText = [] \<longrightarrow>
           requiredSkills j = [] \<and> preferredSkills j = []) \<and>
        (extractExperience jobText = Some 0 \<longrightarrow>
           minimum (experienceLevel j) = Some 0 \<and> level (experienceLevel j) = ''Entry Level'')"
    using no_skills_no_buckets[of L jobText] no_years_entry_level[of jobText]
    by (simp add: j)
  have rng: "0 \<le> calculateMatchScore a b c \<and> calculateMatchScore a b c \<le> 100" for a b c
    by (rule calculateMatchScore_bounds)
  have cmp: "case compareResumeWithJob L nlp resumeText jobText of
      Inl e \<Rightarrow> False
    | Inr (j, nlp') \<Rightarrow>
        (\<exists>m. matchScore j = Some m \<and> 0 \<le> m \<and> m \<le> 100) \<and>
        (NlpService_extractSkills L jobText = [] \<longrightarrow> matchScore j = Some 50)"
  proof -
    have m50: "calculateMatchScore a [] c = 50" for a c
      by (simp add: calculateMatchScore_def)
    have "NlpService_extractSkills L jobText = [] \<longrightarrow>
          calculateMatchScore (NlpService_extractSkills L resumeText)
            (fst (JobDescriptionService_extractSkills L jobText))
            (snd (JobDescriptionService_extractSkills L jobText)) = 50"
      using no_skills_no_buckets[of L jobText] by (auto simp: m50)
    with rng show ?thesis by (simp add: compareResumeWithJob_def j Let_def)
  qed
  let ?r = "fst (analyzeResume L nlp resumeText)"
  let ?sum = "min (real (length (found (analyzeSections resumeText))) / 8 * 40 +
      min (real (length (skills_found (analyzeSkills L resumeText))) / 10 * 30) 30 +
      (if js_gt (years (analyzeExperience resumeText)) 0 then 15 else 0) +
      (if sent_assessment (ResumeService_analyzeSentiment L resumeText) = ''positive'' then 15
       else if sent_assessment (ResumeService_analyzeSentiment L resumeText) = ''neutral'' then 10
       else 5)) 100"
  have "0 \<le> ?sum \<and> ?sum \<le> 100" by (simp add: min_def)
  then have "0 \<le> Math_round ?sum \<and> Math_round ?sum \<le> 100" using Math_round_range by blast
  moreover have exact: "overallScore ?r = Math_round ?sum"
    using calculateOverallScore_exact[OF analyzeSections_found[of resumeText]]
    by (simp add: analyzeResume_fields Let_def)
  ultimately have r1: "0 \<le> overallScore ?r \<and> overallScore ?r \<le> 100"
    by simp
  from extractExperience_defined[of resumeText] have r2: "\<exists>y. years (ra_experience ?r) = Some y"
    by (simp add: analyzeResume_fields analyzeExperience_def Let_def)
  have r3: "overallScore ?r = 10"
    if "found (ra_sections ?r) = []" "skills_found (ra_skills ?r) = []"
      "years (ra_experience ?r) = Some 0" "sent_assessment (ra_sentiment ?r) = ''neutral''"
    using that exact
    by (simp add: analyzeResume_fields Let_def js_gt_def Math_round_def)
  have res: "let r = fst (analyzeResume L nlp resumeText)
    in 0 \<le> overallScore r \<and> overallScore r \<le> 100 \<and>
       (\<exists>y. years (ra_experience r) = Some y) \<and>
       ((\<forall>k. map_of (extractSections resumeText) k \<noteq> Some True) \<longrightarrow>
          found (ra_sections r) = [] \<and>
          missing (ra_sections r) =
            [''contact'', ''summary'', ''experience'', ''education'', ''skills'']) \<and>
       (NlpService_extractSkills L resumeText = [] \<longrightarrow>
          skills_found (ra_skills r) = [] \<and> byCategory (ra_skills r) = []) \<and>
       (extractExperience resumeText = Some 0 \<longrightarrow>
          ra_experience r = \<lparr>years = Some 0, exp_level = ''Entry Level''\<rparr>) \<and>
       (\<not> js_gt (getSentiment L (tokenize L (toLowerCase resumeText))) (3 / 10) \<and>
        \<not> js_lt (getSentiment L (tokenize L (toLowerCase resumeText))) (- (3 / 10)) \<longrightarrow>
          sent_assessment (ra_sentiment r) = ''neutral'') \<and>
       (found (ra_sections r) = [] \<and> skills_found (ra_skills r) = [] \<and>
        years (ra_experience r) = Some 0 \<and> sent_assessment (ra_sentiment r) = ''neutral'' \<longrightarrow>
          overallScore r = 10)"
    unfolding Let_def
    using r1 r2 r3 no_sections[of resumeText] no_skills_resume[of L resumeText]
      no_years_entry_level[of resumeText] neutral_sentiment[of L resumeText]
    by (simp add: analyzeResume_fields)
  from job cmp res show ?thesis by blast
qed


theorem core_operations_total_witness:
  "NlpService_extractSkills exampleLibs ''hello world'' = [] \<and>
   extractExperience ''hello world'' = Some 0 \<and>
   (\<exists>j n. analyzeJobDescription exampleLibs new_NlpService ''hello world'' = Inr (j, n) \<and>
          requiredSkills j = [] \<and> preferredSkills j = [] \<and>
          level (experienceLevel j) = ''Entry Level'') \<and>
   (\<exists>j n. compareResumeWithJob exampleLibs new_NlpService ''hello world'' ''hello world'' =
            Inr (j, n) \<and> matchScore j = Some 50) \<and>
   found (ra_sections (fst (analyzeResume exampleLibs new_NlpService ''hello world''))) = [] \<and>
   skills_found (ra_skills (fst (analyzeResume exampleLibs new_NlpService ''hello world''))) = [] \<and>
   ra_experience (fst (analyzeResume exampleLibs new_NlpService ''hello world'')) =
     \<lparr>years = Some 0, exp_level = ''Entry Level''\<rparr> \<and>
   sent_assessment (ra_sentiment (fst (analyzeResume exampleLibs new_NlpService ''hello world''))) =
     ''neutral'' \<and>
   overallScore (fst (analyzeResume exampleLibs new_NlpService ''hello world'')) = 10"
proof -
  have h1: "NlpService_extractSkills exampleLibs ''hello world'' = []" by code_simp
  have h2: "extractExperience ''hello world'' = Some 0" by code_simp
  have "extractSections ''hello world'' =
          [(''summary'', False), (''experience'', False), (''education'', False),
           (''skills'', False), (''projects'', False), (''certifications'', False),
           (''achievements'', False), (''contact'', False)]"
    by code_simp
  then have h3: "\<forall>k. map_of (extractSections ''hello world'') k \<noteq> Some True" by simp
  have h4: "\<not> js_gt (getSentiment exampleLibs (tokenize exampleLibs (toLowerCase ''hello world''))) (3 / 10)"
    "\<not> js_lt (getSentiment exampleLibs (tokenize exampleLibs (toLowerCase ''hello world''))) (- (3 / 10))"
    by (simp_all add: exampleLibs_def js_gt_def js_lt_def)
  from core_operations_total[where L = exampleLibs and nlp = new_NlpService
      and jobText = "''hello world''" and resumeText = "''hello world''"]
    h1 h2 h3 h4
  show ?thesis by (auto simp: Let_def split: sum.splits prod.splits)
qed

end
